theory Spec2Isabelle
  imports Complex_Main "HOL-Library.Word"
begin

section \<open>py\_io\_uring: the request and completion lifecycle of \<^verbatim>\<open>src/py_io_uring.c\<close>\<close>

text \<open>
  The extension module wraps one native ring in three Python types: \<^verbatim>\<open>IoUring\<close>,
  \<^verbatim>\<open>Sqe\<close> (a request) and \<^verbatim>\<open>Cqe\<close> (a completion). The model is a store: Python
  objects live in maps from addresses to records, an object's identity is its address,
  and reference counts are fields that \<^verbatim>\<open>Py_INCREF\<close> and \<^verbatim>\<open>Py_DECREF\<close> update, with the
  type's \<^verbatim>\<open>tp_dealloc\<close> run when a count reaches zero. One ring is modelled; its
  \<^verbatim>\<open>wait_submit\<close> list and the native ring's memory are fields of the store.

  What lies outside the module is treated in two ways. The answers of the kernel (the
  return code and entry pointer of a native wait, the return code of a native submit,
  the slot \<^verbatim>\<open>io_uring_get_sqe\<close> hands out) and of libc's \<^verbatim>\<open>inet_pton\<close> are arguments of
  the functions below. The helpers whose effect is fixed by their own sources (liburing's
  \<^verbatim>\<open>io_uring_prep_*\<close>, \<^verbatim>\<open>io_uring_sqe_set_data\<close> and \<^verbatim>\<open>io_uring_cqe_seen\<close>; CPython's
  \<^verbatim>\<open>PyArg_ParseTuple\<close>, \<^verbatim>\<open>PyBuffer_Release\<close> and \<^verbatim>\<open>_PyBytes_Resize\<close>) are written out.

  Conventions: a \<^verbatim>\<open>NULL\<close> pointer is \<open>None\<close>; a dereference of \<^verbatim>\<open>NULL\<close>, or of a
  pointer to a block that holds no live object of the type the code reads it as, is the
  result \<open>Inl Undefined\<close>; allocation is taken to succeed. A freed block can be handed
  out again, and a pointer kept to it then reads the object now in it.
\<close>

subsection \<open>Data\<close>

type_synonym addr = nat
type_synonym byte = "8 word"

datatype error =
    TypeError
  | OverflowError
  | SystemError
  | OSError int
  | Undefined

datatype pyobj =
    PyNone
  | PyLong int
  | PyFloat real
  | PyStr string
  | PyTuple "pyobj list"
  | PyList "pyobj list"
  | PyBytes addr
  | PySqe addr
  | PyCqe addr

text \<open>\<^verbatim>\<open>struct io_uring_sqe\<close> and \<^verbatim>\<open>struct io_uring_cqe\<close>, the fields liburing's
  \<^verbatim>\<open>io_uring_prep_*\<close> helpers and \<^verbatim>\<open>io_uring_sqe_set_data\<close> write.\<close>

record io_uring_sqe =
  opcode :: int
  sqe_fd :: int
  sqe_off :: int
  sqe_addr :: nat
  sqe_len :: int
  op_flags :: int
  user_data :: addr

record io_uring_cqe =
  cqe_user_data :: addr
  res :: "32 word"

text \<open>A bytes-like object: its reference count and its contents. Buffers the module
  allocates and buffers the caller passes in are objects of the same store.\<close>

record PyBytesObject =
  bytes_refcnt :: nat
  ob_sval :: "byte list"

text \<open>\<^verbatim>\<open>SqeObject\<close>. The \<^verbatim>\<open>Py_buffer *user_buffer\<close> is reduced to its \<^verbatim>\<open>obj\<close> field, the
  exporter it holds; \<^verbatim>\<open>buf\<close> and \<^verbatim>\<open>len\<close> are read from the exporter while \<^verbatim>\<open>obj\<close> is set
  and are never read otherwise.\<close>

record SqeObject =
  sqe_refcnt :: nat
  sqe :: "addr option"
  fd :: int
  error :: int
  operation :: int
  allocated_buffer :: "addr option"
  user_buffer :: "addr option"
  data :: pyobj
  cqeobj :: "addr option"

record CqeObject =
  cqe_refcnt :: nat
  cqe :: "addr option"
  sqeobj :: "addr option"
  seen :: bool

text \<open>The store. \<open>next_addr\<close> is the first block of memory never handed out and
  \<open>free_blocks\<close> the blocks that were freed, each with its size class, the most recently
  freed first; \<open>empty_bytes\<close> is the interpreter's shared empty bytes object, once it
  exists. \<open>wait_submit\<close> is the \<^verbatim>\<open>IoUringObject\<close>'s list of requests not yet
  submitted; \<open>sq\<close> and \<open>cq\<close> are the native ring's entries, \<open>cq_head\<close> counts the
  completion slots handed back to the kernel; \<open>uninit\<close> and \<open>garbage\<close> stand for the
  contents of memory and of locals the code reads without having written them.\<close>

record state =
  sqes :: "addr \<rightharpoonup> SqeObject"
  cqes :: "addr \<rightharpoonup> CqeObject"
  bytes_heap :: "addr \<rightharpoonup> PyBytesObject"
  next_addr :: addr
  free_blocks :: "(nat \<times> addr) list"
  empty_bytes :: "addr option"
  wait_submit :: "addr list"
  sq :: "addr \<Rightarrow> io_uring_sqe"
  cq :: "addr \<rightharpoonup> io_uring_cqe"
  cq_head :: nat
  uninit :: "nat \<Rightarrow> byte"
  garbage :: int

type_synonym 'a outcome = "state \<times> (error + 'a)"

subsection \<open>Opcodes (\<^verbatim>\<open>enum io_uring_op\<close> of \<^verbatim>\<open>linux/io_uring.h\<close>)\<close>

definition IORING_OP_NOP :: int where "IORING_OP_NOP = 0"
definition IORING_OP_TIMEOUT :: int where "IORING_OP_TIMEOUT = 11"
definition IORING_OP_TIMEOUT_REMOVE :: int where "IORING_OP_TIMEOUT_REMOVE = 12"
definition IORING_OP_ACCEPT :: int where "IORING_OP_ACCEPT = 13"
definition IORING_OP_ASYNC_CANCEL :: int where "IORING_OP_ASYNC_CANCEL = 14"
definition IORING_OP_CONNECT :: int where "IORING_OP_CONNECT = 16"
definition IORING_OP_CLOSE :: int where "IORING_OP_CLOSE = 19"
definition IORING_OP_READ :: int where "IORING_OP_READ = 22"
definition IORING_OP_WRITE :: int where "IORING_OP_WRITE = 23"
definition IORING_OP_SEND :: int where "IORING_OP_SEND = 26"
definition IORING_OP_RECV :: int where "IORING_OP_RECV = 27"

subsection \<open>The allocator\<close>

text \<open>The three kinds of object are allocated with \<^verbatim>\<open>PyObject_Malloc\<close> (\<^verbatim>\<open>tp_alloc\<close> of a
  type without garbage-collector support, and \<^verbatim>\<open>PyBytes_FromStringAndSize\<close>) and freed
  with \<^verbatim>\<open>PyObject_Free\<close> (\<^verbatim>\<open>tp_free\<close>). CPython's allocator rounds a request up to a
  multiple of 16 bytes, its size class, and keeps the freed blocks of each class in a
  list from which the next request of that class is served, the most recently freed
  block first; only when the class has no freed block is memory taken that was never
  handed out. So an address comes back: a new object can have the address of a dead one.

  On a 64-bit build \<^verbatim>\<open>sizeof(SqeObject)\<close> is 72, \<^verbatim>\<open>sizeof(CqeObject)\<close> is 40, and a bytes
  object of \<open>n\<close> bytes takes \<open>33 + n\<close>. (The \<^verbatim>\<open>Py_buffer\<close> that \<^verbatim>\<open>Sqe_new\<close> allocates
  beside each request is not a block of the model: it is allocated after the request
  and freed before it, so the request's block is the first of the two to be handed out
  again.)\<close>

definition size_class :: "nat \<Rightarrow> nat" where
  "size_class n = (n + 15) div 16"

definition sqe_class :: nat where
  "sqe_class = size_class 72"

definition cqe_class :: nat where
  "cqe_class = size_class 40"

definition bytes_class :: "nat \<Rightarrow> nat" where
  "bytes_class n = size_class (33 + n)"

text \<open>No live object occupies the block at \<open>a\<close>.\<close>

definition is_free :: "state \<Rightarrow> addr \<Rightarrow> bool" where
  "is_free st a = (sqes st a = None \<and> cqes st a = None \<and> bytes_heap st a = None)"

text \<open>\<^verbatim>\<open>PyObject_Malloc\<close> for a block of class \<open>k\<close>, and \<^verbatim>\<open>PyObject_Free\<close>. The allocator
  never hands out a block in use: an entry of the list whose block holds a live object
  is passed over (a run of the module has no such entry, a block enters the list when
  its object is freed).\<close>

definition PyObject_Malloc :: "state \<Rightarrow> nat \<Rightarrow> state \<times> addr" where
  "PyObject_Malloc st k =
     (case find (\<lambda>e. fst e = k \<and> is_free st (snd e)) (free_blocks st) of
        Some e \<Rightarrow> (st\<lparr>free_blocks := remove1 e (free_blocks st)\<rparr>, snd e)
      | None \<Rightarrow> (st\<lparr>next_addr := Suc (next_addr st)\<rparr>, next_addr st))"

definition PyObject_Free :: "state \<Rightarrow> nat \<Rightarrow> addr \<Rightarrow> state" where
  "PyObject_Free st k a = st\<lparr>free_blocks := (k, a) # free_blocks st\<rparr>"

subsection \<open>Bytes objects\<close>

text \<open>\<^verbatim>\<open>Py_INCREF\<close> and \<^verbatim>\<open>Py_DECREF\<close> on a bytes object; the object is freed when its
  count reaches zero. Both are only called on live objects here.\<close>

definition bytes_incref :: "state \<Rightarrow> addr \<Rightarrow> state" where
  "bytes_incref st b =
     (case bytes_heap st b of
        None \<Rightarrow> st
      | Some bo \<Rightarrow> st\<lparr>bytes_heap := (bytes_heap st)(b \<mapsto> bo\<lparr>bytes_refcnt := bytes_refcnt bo + 1\<rparr>)\<rparr>)"

definition bytes_decref :: "state \<Rightarrow> addr \<Rightarrow> state" where
  "bytes_decref st b =
     (case bytes_heap st b of
        None \<Rightarrow> st
      | Some bo \<Rightarrow>
          if bytes_refcnt bo \<le> 1 then
            PyObject_Free (st\<lparr>bytes_heap := (bytes_heap st)(b := None)\<rparr>)
              (bytes_class (length (ob_sval bo))) b
          else st\<lparr>bytes_heap := (bytes_heap st)(b \<mapsto> bo\<lparr>bytes_refcnt := bytes_refcnt bo - 1\<rparr>)\<rparr>)"

text \<open>The empty bytes object is shared: the interpreter keeps one, with a reference of
  its own, and every request for a bytes object of no bytes gets a new reference to it.
  (It is entered in the store when it is first asked for; an interpreter that creates
  it at start-up differs in its address only.)\<close>

definition bytes_create_empty :: "state \<Rightarrow> state \<times> addr" where
  "bytes_create_empty st =
     (let (st1, a) = PyObject_Malloc st (bytes_class 0)
      in (st1\<lparr>bytes_heap := (bytes_heap st1)(a \<mapsto> \<lparr>bytes_refcnt = 2, ob_sval = []\<rparr>),
              empty_bytes := Some a\<rparr>, a))"

definition bytes_new_empty :: "state \<Rightarrow> state \<times> addr" where
  "bytes_new_empty st =
     (case empty_bytes st of
        None \<Rightarrow> bytes_create_empty st
      | Some a \<Rightarrow>
          (case bytes_heap st a of
             None \<Rightarrow> bytes_create_empty st
           | Some bo \<Rightarrow> if ob_sval bo = [] then (bytes_incref st a, a) else bytes_create_empty st))"

text \<open>\<^verbatim>\<open>PyBytes_FromStringAndSize(NULL, len)\<close> for \<open>0 \<le> len\<close>: the shared empty object
  when \<open>len\<close> is 0, otherwise a new object of \<open>len\<close> bytes that nothing has written yet,
  with one reference.\<close>

definition bytes_alloc :: "state \<Rightarrow> nat \<Rightarrow> state \<times> addr" where
  "bytes_alloc st n =
     (if n = 0 then bytes_new_empty st
      else
        (let (st1, b) = PyObject_Malloc st (bytes_class n)
         in (st1\<lparr>bytes_heap := (bytes_heap st1)
                   (b \<mapsto> \<lparr>bytes_refcnt = 1, ob_sval = map (uninit st) [0..<n]\<rparr>)\<rparr>, b)))"

text \<open>CPython's \<^verbatim>\<open>_PyBytes_Resize(&v, newsize)\<close>, as \<^verbatim>\<open>Objects/bytesobject.c\<close> has it
  from CPython 3.10 on, in the order of its tests: nothing to do when the size is
  already \<open>newsize\<close>; an empty object is replaced by a new one; otherwise the object must
  have exactly one reference; if it is to shrink to no bytes it is replaced by the
  shared empty object (up to CPython 3.9 this case was reallocated like the next); else
  it is reallocated, keeping its first bytes. The reallocated object keeps its identity
  here: where the block moves, the caller's pointer, the only one there is, moves with
  it (and when the object is freed its block is entered in the class of the size it
  then has). On the error path the reference is dropped and the caller's pointer is set to
  \<^verbatim>\<open>NULL\<close> (\<open>None\<close> here).\<close>

definition PyBytes_Resize :: "state \<Rightarrow> addr \<Rightarrow> int \<Rightarrow> state \<times> addr option" where
  "PyBytes_Resize st v newsize =
     (case bytes_heap st v of
        None \<Rightarrow> (st, None)
      | Some bo \<Rightarrow>
          if newsize < 0 then (bytes_decref st v, None)
          else if int (length (ob_sval bo)) = newsize then (st, Some v)
          else if length (ob_sval bo) = 0 then
            (let (st1, b) = bytes_alloc st (nat newsize)
             in (bytes_decref st1 v, Some b))
          else if bytes_refcnt bo \<noteq> 1 then (bytes_decref st v, None)
          else if newsize = 0 then
            (let (st1, b) = bytes_new_empty st
             in (bytes_decref st1 v, Some b))
          else
            (let n = nat newsize;
                 bs = take n (ob_sval bo) @ map (uninit st) [length (ob_sval bo)..<n]
             in (st\<lparr>bytes_heap := (bytes_heap st)(v \<mapsto> bo\<lparr>ob_sval := bs\<rparr>)\<rparr>, Some v)))"

subsection \<open>Requests: \<^verbatim>\<open>Sqe_new\<close>, \<^verbatim>\<open>Sqe_reinit_buffer\<close>, \<^verbatim>\<open>Sqe_dealloc\<close>\<close>

text \<open>\<^verbatim>\<open>Sqe_new\<close>: the fields of a new request, which has one reference. The native
  slot pointer is not set by \<^verbatim>\<open>Sqe_new\<close> (\<^verbatim>\<open>tp_alloc\<close> zeroes it).\<close>

definition Sqe_new :: SqeObject where
  "Sqe_new = \<lparr>sqe_refcnt = 1, sqe = None, fd = - 1, error = 0, operation = - 1,
     allocated_buffer = None, user_buffer = None, data = PyNone, cqeobj = None\<rparr>"

text \<open>\<^verbatim>\<open>Sqe_reinit_buffer\<close>: the borrowed view is released first (\<^verbatim>\<open>PyBuffer_Release\<close>
  drops the reference the view holds on its exporter), then the owned buffer.\<close>

definition release_user_buffer :: "state \<Rightarrow> addr \<Rightarrow> state" where
  "release_user_buffer st self =
     (case sqes st self of
        None \<Rightarrow> st
      | Some so \<Rightarrow>
     (case user_buffer so of
        None \<Rightarrow> st
      | Some v \<Rightarrow> (bytes_decref st v)\<lparr>sqes := (sqes st)(self \<mapsto> so\<lparr>user_buffer := None\<rparr>)\<rparr>))"

definition release_allocated_buffer :: "state \<Rightarrow> addr \<Rightarrow> state" where
  "release_allocated_buffer st self =
     (case sqes st self of
        None \<Rightarrow> st
      | Some so \<Rightarrow>
     (case allocated_buffer so of
        None \<Rightarrow> st
      | Some b \<Rightarrow> (bytes_decref st b)\<lparr>sqes := (sqes st)(self \<mapsto> so\<lparr>allocated_buffer := None\<rparr>)\<rparr>))"

definition Sqe_reinit_buffer :: "state \<Rightarrow> addr \<Rightarrow> state" where
  "Sqe_reinit_buffer st self = release_allocated_buffer (release_user_buffer st self) self"

text \<open>\<^verbatim>\<open>Sqe_dealloc\<close>: the buffers are released and the object is freed. (The reference
  on \<open>data\<close> is dropped too; the counts of the caller's own objects are not part of the
  store.)\<close>

definition Sqe_dealloc :: "state \<Rightarrow> addr \<Rightarrow> state" where
  "Sqe_dealloc st self =
     (let st1 = Sqe_reinit_buffer st self
      in PyObject_Free (st1\<lparr>sqes := (sqes st1)(self := None)\<rparr>) sqe_class self)"

text \<open>\<^verbatim>\<open>Py_DECREF\<close> on a request. On a pointer to no live request it is undefined
  (\<open>None\<close>).\<close>

definition sqe_decref :: "state \<Rightarrow> addr \<Rightarrow> state option" where
  "sqe_decref st s =
     (case sqes st s of
        None \<Rightarrow> None
      | Some so \<Rightarrow>
          if sqe_refcnt so \<le> 1 then Some (Sqe_dealloc st s)
          else Some (st\<lparr>sqes := (sqes st)(s \<mapsto> so\<lparr>sqe_refcnt := sqe_refcnt so - 1\<rparr>)\<rparr>))"

subsection \<open>Completions: \<^verbatim>\<open>Cqe_new\<close>, \<^verbatim>\<open>Cqe_dealloc\<close>\<close>

definition Cqe_new :: CqeObject where
  "Cqe_new = \<lparr>cqe_refcnt = 1, cqe = None, sqeobj = None, seen = False\<rparr>"

text \<open>\<^verbatim>\<open>Cqe_dealloc\<close>: the request's cache pointer is cleared through
  \<^verbatim>\<open>self->sqeobj\<close> (undefined when that is \<^verbatim>\<open>NULL\<close> or dangling), the wrapper's reference
  on the request is dropped and the wrapper is freed.\<close>

definition Cqe_dealloc :: "state \<Rightarrow> addr \<Rightarrow> state option" where
  "Cqe_dealloc st self =
     (case cqes st self of
        None \<Rightarrow> None
      | Some co \<Rightarrow>
     (case sqeobj co of
        None \<Rightarrow> None
      | Some s \<Rightarrow>
     (case sqes st s of
        None \<Rightarrow> None
      | Some so \<Rightarrow>
     (case sqe_decref (st\<lparr>sqes := (sqes st)(s \<mapsto> so\<lparr>cqeobj := None\<rparr>)\<rparr>) s of
        None \<Rightarrow> None
      | Some st1 \<Rightarrow> Some (PyObject_Free (st1\<lparr>cqes := (cqes st1)(self := None)\<rparr>) cqe_class self)))))"

definition cqe_incref :: "state \<Rightarrow> addr \<Rightarrow> state option" where
  "cqe_incref st c =
     (case cqes st c of
        None \<Rightarrow> None
      | Some co \<Rightarrow> Some (st\<lparr>cqes := (cqes st)(c \<mapsto> co\<lparr>cqe_refcnt := cqe_refcnt co + 1\<rparr>)\<rparr>))"

text \<open>\<^verbatim>\<open>Py_DECREF\<close> on a completion wrapper: what the interpreter does when the caller
  drops a reference to it.\<close>

definition cqe_decref :: "state \<Rightarrow> addr \<Rightarrow> state option" where
  "cqe_decref st c =
     (case cqes st c of
        None \<Rightarrow> None
      | Some co \<Rightarrow>
          if cqe_refcnt co \<le> 1 then Cqe_dealloc st c
          else Some (st\<lparr>cqes := (cqes st)(c \<mapsto> co\<lparr>cqe_refcnt := cqe_refcnt co - 1\<rparr>)\<rparr>))"

subsection \<open>The ring: \<^verbatim>\<open>IoUring_get_sqe\<close>, \<^verbatim>\<open>IoUring_submit\<close>\<close>

text \<open>\<^verbatim>\<open>IoUring_get_sqe\<close>. \<open>slot\<close> is what \<^verbatim>\<open>io_uring_get_sqe\<close> answers: the address of
  a free submission slot, or \<^verbatim>\<open>NULL\<close> when the queue is full (the code does not look).
  The new request is allocated by calling the type; it has the caller's reference and
  the list's.\<close>

definition IoUring_get_sqe :: "state \<Rightarrow> addr option \<Rightarrow> pyobj outcome" where
  "IoUring_get_sqe st slot =
     (let (st1, a) = PyObject_Malloc st sqe_class;
          so = Sqe_new\<lparr>sqe := slot, sqe_refcnt := 2\<rparr>
      in (st1\<lparr>sqes := (sqes st1)(a \<mapsto> so),
               wait_submit := wait_submit st1 @ [a]\<rparr>, Inr (PySqe a)))"

text \<open>The loop of \<^verbatim>\<open>IoUring_submit\<close>: every pending request's slot is tagged with the
  request's own address (\<^verbatim>\<open>io_uring_sqe_set_data\<close>) and the request gets one more
  reference.\<close>

fun submit_tag :: "state \<Rightarrow> addr list \<Rightarrow> state option" where
  "submit_tag st [] = Some st"
| "submit_tag st (a # as) =
     (case sqes st a of
        None \<Rightarrow> None
      | Some so \<Rightarrow>
     (case sqe so of
        None \<Rightarrow> None
      | Some p \<Rightarrow>
          submit_tag
            (st\<lparr>sq := (sq st)(p := (sq st p)\<lparr>user_data := a\<rparr>),
                sqes := (sqes st)(a \<mapsto> so\<lparr>sqe_refcnt := sqe_refcnt so + 1\<rparr>)\<rparr>) as))"

text \<open>Freeing the old list drops its reference on every item.\<close>

fun decref_all :: "state \<Rightarrow> addr list \<Rightarrow> state option" where
  "decref_all st [] = Some st"
| "decref_all st (a # as) =
     (case sqe_decref st a of None \<Rightarrow> None | Some st1 \<Rightarrow> decref_all st1 as)"

text \<open>\<^verbatim>\<open>IoUring_submit\<close>. \<open>ret\<close> is what \<^verbatim>\<open>io_uring_submit\<close> answers: the number of
  entries submitted, or a negated error number.\<close>

definition IoUring_submit :: "state \<Rightarrow> int \<Rightarrow> pyobj outcome" where
  "IoUring_submit st ret =
     (case submit_tag st (wait_submit st) of
        None \<Rightarrow> (st, Inl Undefined)
      | Some st1 \<Rightarrow>
          if ret < 0 then (st1, Inl (OSError (- ret)))
          else
            (case decref_all st1 (rev (wait_submit st1)) of
               None \<Rightarrow> (st1, Inl Undefined)
             | Some st2 \<Rightarrow> (st2\<lparr>wait_submit := []\<rparr>, Inr PyNone)))"

subsection \<open>Retrieval: \<^verbatim>\<open>IoUring_wait_cqe_nr_impl\<close>, \<^verbatim>\<open>IoUring_wait_cqes\<close>,
  \<^verbatim>\<open>IoUring_wait_single_cqe\<close>\<close>

text \<open>The block the three retrieval functions share: the completion entry at \<open>p\<close> is
  resolved to its request through the tag; a request with no cached wrapper gets a new
  one (allocated by calling the type), which takes a reference on the request and is
  cached without a reference of the cache's own; a request with a cached wrapper gives
  that wrapper, with one more reference.\<close>

definition wrap_cqe :: "state \<Rightarrow> addr \<Rightarrow> addr outcome" where
  "wrap_cqe st p =
     (case cq st p of
        None \<Rightarrow> (st, Inl Undefined)
      | Some e \<Rightarrow>
     (case sqes st (cqe_user_data e) of
        None \<Rightarrow> (st, Inl Undefined)
      | Some so \<Rightarrow>
     (case cqeobj so of
        None \<Rightarrow>
          (let (st1, c) = PyObject_Malloc st cqe_class;
               co = Cqe_new\<lparr>cqe := Some p, sqeobj := Some (cqe_user_data e)\<rparr>;
               so' = so\<lparr>sqe_refcnt := sqe_refcnt so + 1, cqeobj := Some c\<rparr>
           in (st1\<lparr>cqes := (cqes st1)(c \<mapsto> co),
                    sqes := (sqes st1)(cqe_user_data e \<mapsto> so')\<rparr>, Inr c))
      | Some c \<Rightarrow>
          (case cqe_incref st c of
             None \<Rightarrow> (st, Inl Undefined)
           | Some st1 \<Rightarrow> (st1, Inr c)))))"

text \<open>The \<^verbatim>\<open>for\<close> loop over \<^verbatim>\<open>cqes + i\<close>, filling the result list in order.\<close>

fun wrap_loop :: "state \<Rightarrow> addr \<Rightarrow> nat list \<Rightarrow> pyobj list \<Rightarrow> (pyobj list) outcome" where
  "wrap_loop st base [] rlist = (st, Inr rlist)"
| "wrap_loop st base (i # is) rlist =
     (case wrap_cqe st (base + i) of
        (st1, Inl e) \<Rightarrow> (st1, Inl e)
      | (st1, Inr c) \<Rightarrow> wrap_loop st1 base is (rlist @ [PyCqe c]))"

text \<open>\<^verbatim>\<open>IoUring_wait_cqe_nr_impl\<close>. \<open>io_uring_wait_cqe_nr\<close> is the native call: given
  \<open>wait_nr\<close> it answers a return code and the pointer to the first ready entry.\<close>

definition IoUring_wait_cqe_nr_impl :: "(nat \<Rightarrow> int \<times> addr) \<Rightarrow> state \<Rightarrow> nat \<Rightarrow> pyobj outcome" where
  "IoUring_wait_cqe_nr_impl io_uring_wait_cqe_nr st wait_nr =
     (let (ret, base) = io_uring_wait_cqe_nr wait_nr
      in if ret < 0 then (st, Inl (OSError (- ret)))
         else (case wrap_loop st base [0..<wait_nr] [] of
                 (st1, Inl e) \<Rightarrow> (st1, Inl e)
               | (st1, Inr rlist) \<Rightarrow> (st1, Inr (PyList rlist))))"

text \<open>\<^verbatim>\<open>IoUring_wait_single_cqe\<close>, behind \<^verbatim>\<open>wait_cqe\<close> (\<open>wait_nr = 1\<close>) and \<^verbatim>\<open>peek_cqe\<close>
  (\<open>wait_nr = 0\<close>). After the shared block it stores the entry pointer and the request
  in the wrapper once more.\<close>

definition IoUring_wait_single_cqe :: "(nat \<Rightarrow> int \<times> addr) \<Rightarrow> state \<Rightarrow> nat \<Rightarrow> pyobj outcome" where
  "IoUring_wait_single_cqe io_uring_wait_cqe_nr st wait_nr =
     (let (ret, p) = io_uring_wait_cqe_nr wait_nr
      in if ret < 0 then (st, Inl (OSError (- ret)))
         else
           (case wrap_cqe st p of
              (st1, Inl e) \<Rightarrow> (st1, Inl e)
            | (st1, Inr c) \<Rightarrow>
           (case cqes st1 c of
              None \<Rightarrow> (st1, Inl Undefined)
            | Some co \<Rightarrow>
           (case cq st1 p of
              None \<Rightarrow> (st1, Inl Undefined)
            | Some e \<Rightarrow>
                (st1\<lparr>cqes := (cqes st1)(c \<mapsto> co\<lparr>cqe := Some p, sqeobj := Some (cqe_user_data e)\<rparr>)\<rparr>,
                 Inr (PyCqe c))))))"

definition IoUring_wait_cqe :: "(nat \<Rightarrow> int \<times> addr) \<Rightarrow> state \<Rightarrow> pyobj outcome" where
  "IoUring_wait_cqe io_uring_wait_cqe_nr st = IoUring_wait_single_cqe io_uring_wait_cqe_nr st 1"

definition IoUring_peek_cqe :: "(nat \<Rightarrow> int \<times> addr) \<Rightarrow> state \<Rightarrow> pyobj outcome" where
  "IoUring_peek_cqe io_uring_wait_cqe_nr st = IoUring_wait_single_cqe io_uring_wait_cqe_nr st 0"

subsection \<open>\<^verbatim>\<open>IoUring_cqe_seen\<close>\<close>

text \<open>The format \<^verbatim>\<open>"O:cqe_seen"\<close> takes one object of any type, which the code then
  reads as a \<^verbatim>\<open>CqeObject\<close>. liburing's \<^verbatim>\<open>io_uring_cqe_seen\<close> advances the completion
  ring's head by one when the entry pointer is not \<^verbatim>\<open>NULL\<close>.\<close>

fun IoUring_cqe_seen :: "state \<Rightarrow> pyobj list \<Rightarrow> pyobj outcome" where
  "IoUring_cqe_seen st [PyCqe c] =
     (case cqes st c of
        None \<Rightarrow> (st, Inl Undefined)
      | Some co \<Rightarrow>
          if \<not> seen co then
            (let st1 = st\<lparr>cq_head := (case cqe co of None \<Rightarrow> cq_head st | Some p \<Rightarrow> cq_head st + 1),
                           cqes := (cqes st)(c \<mapsto> co\<lparr>seen := True\<rparr>)\<rparr>
             in (case sqeobj co of
                   None \<Rightarrow> (st1, Inl Undefined)
                 | Some s \<Rightarrow>
                 (case sqe_decref st1 s of
                    None \<Rightarrow> (st1, Inl Undefined)
                  | Some st2 \<Rightarrow> (st2, Inr PyNone))))
          else (st, Inr PyNone))"
| "IoUring_cqe_seen st [x] = (st, Inl Undefined)"
| "IoUring_cqe_seen st args = (st, Inl TypeError)"

subsection \<open>Argument conversion (\<^verbatim>\<open>PyArg_ParseTuple\<close>)\<close>

text \<open>The format units the module uses, as CPython documents them: \<^verbatim>\<open>i\<close> converts an
  integer to a C \<^verbatim>\<open>int\<close> and raises \<^verbatim>\<open>OverflowError\<close> outside its range, \<^verbatim>\<open>I\<close> converts
  to \<^verbatim>\<open>unsigned int\<close> without an overflow check, \<^verbatim>\<open>d\<close> takes a float or an integer,
  \<^verbatim>\<open>s\<close> a string. The number of arguments is checked before any conversion.\<close>

definition arg_count_ok :: "pyobj list \<Rightarrow> nat \<Rightarrow> nat \<Rightarrow> bool" where
  "arg_count_ok args lo hi = (lo \<le> length args \<and> length args \<le> hi)"

fun conv_i :: "pyobj \<Rightarrow> error + int" where
  "conv_i (PyLong v) = (if - (2 ^ 31) \<le> v \<and> v < 2 ^ 31 then Inr v else Inl OverflowError)"
| "conv_i x = Inl TypeError"

fun conv_I :: "pyobj \<Rightarrow> error + int" where
  "conv_I (PyLong v) = Inr (v mod 2 ^ 32)"
| "conv_I x = Inl TypeError"

fun conv_d :: "pyobj \<Rightarrow> error + real" where
  "conv_d (PyFloat x) = Inr x"
| "conv_d (PyLong v) = Inr (of_int v)"
| "conv_d x = Inl TypeError"

fun conv_s :: "pyobj \<Rightarrow> error + string" where
  "conv_s (PyStr x) = Inr x"
| "conv_s x = Inl TypeError"

text \<open>An optional unit after \<^verbatim>\<open>|\<close>: converted when the argument is there; the C
  variable keeps what it held otherwise.\<close>

definition conv_opt :: "(pyobj \<Rightarrow> error + 'a) \<Rightarrow> pyobj list \<Rightarrow> nat \<Rightarrow> 'a \<Rightarrow> error + 'a" where
  "conv_opt conv args k dflt = (if k < length args then conv (args ! k) else Inr dflt)"

text \<open>\<^verbatim>\<open>O!\<close> takes the address of a type object and accepts an object of that type.
  \<open>NotAType\<close> stands for a pointer that is handed over in the type's place and points to
  no type object: the check then reads through it, which is undefined.\<close>

datatype pytype = SqeType | CqeType | PyTuple_Type | NotAType

fun conv_O_bang :: "pytype \<Rightarrow> pyobj \<Rightarrow> error + pyobj" where
  "conv_O_bang NotAType x = Inl Undefined"
| "conv_O_bang SqeType (PySqe a) = Inr (PySqe a)"
| "conv_O_bang CqeType (PyCqe a) = Inr (PyCqe a)"
| "conv_O_bang PyTuple_Type (PyTuple xs) = Inr (PyTuple xs)"
| "conv_O_bang T x = Inl TypeError"

text \<open>\<^verbatim>\<open>"ii|i"\<close> (\<^verbatim>\<open>prep_recv\<close>, \<^verbatim>\<open>prep_read\<close>), \<^verbatim>\<open>"i|i"\<close> (\<^verbatim>\<open>prep_accept\<close>),
  \<^verbatim>\<open>"i"\<close> (\<^verbatim>\<open>prep_close\<close>), \<^verbatim>\<open>"d|II"\<close> (\<^verbatim>\<open>prep_timeout\<close>), \<^verbatim>\<open>"I"\<close> (\<^verbatim>\<open>wait_cqe_nr\<close>) and
  \<^verbatim>\<open>"I|d"\<close> (\<^verbatim>\<open>wait_cqes\<close>). \<open>d3\<close> is what the third variable holds before the call.\<close>

definition parse_ii_i :: "pyobj list \<Rightarrow> int \<Rightarrow> error + int \<times> int \<times> int" where
  "parse_ii_i args d3 =
     (if \<not> arg_count_ok args 2 3 then Inl TypeError
      else case conv_i (args ! 0) of Inl e \<Rightarrow> Inl e | Inr a \<Rightarrow>
           case conv_i (args ! 1) of Inl e \<Rightarrow> Inl e | Inr b \<Rightarrow>
           case conv_opt conv_i args 2 d3 of Inl e \<Rightarrow> Inl e | Inr c \<Rightarrow> Inr (a, b, c))"

definition parse_i_i :: "pyobj list \<Rightarrow> int \<Rightarrow> error + int \<times> int" where
  "parse_i_i args d2 =
     (if \<not> arg_count_ok args 1 2 then Inl TypeError
      else case conv_i (args ! 0) of Inl e \<Rightarrow> Inl e | Inr a \<Rightarrow>
           case conv_opt conv_i args 1 d2 of Inl e \<Rightarrow> Inl e | Inr b \<Rightarrow> Inr (a, b))"

definition parse_i :: "pyobj list \<Rightarrow> error + int" where
  "parse_i args = (if \<not> arg_count_ok args 1 1 then Inl TypeError else conv_i (args ! 0))"

definition parse_d_II :: "pyobj list \<Rightarrow> error + real \<times> int \<times> int" where
  "parse_d_II args =
     (if \<not> arg_count_ok args 1 3 then Inl TypeError
      else case conv_d (args ! 0) of Inl e \<Rightarrow> Inl e | Inr t \<Rightarrow>
           case conv_opt conv_I args 1 0 of Inl e \<Rightarrow> Inl e | Inr c \<Rightarrow>
           case conv_opt conv_I args 2 0 of Inl e \<Rightarrow> Inl e | Inr f \<Rightarrow> Inr (t, c, f))"

definition parse_I :: "pyobj list \<Rightarrow> error + nat" where
  "parse_I args =
     (if \<not> arg_count_ok args 1 1 then Inl TypeError
      else case conv_I (args ! 0) of Inl e \<Rightarrow> Inl e | Inr n \<Rightarrow> Inr (nat n))"

definition parse_I_d :: "pyobj list \<Rightarrow> error + nat \<times> real" where
  "parse_I_d args =
     (if \<not> arg_count_ok args 1 2 then Inl TypeError
      else case conv_I (args ! 0) of Inl e \<Rightarrow> Inl e | Inr n \<Rightarrow>
           case conv_opt conv_d args 1 0 of Inl e \<Rightarrow> Inl e | Inr t \<Rightarrow> Inr (nat n, t))"

text \<open>\<^verbatim>\<open>"iy*|i"\<close> with \<^verbatim>\<open>self->user_buffer\<close> as the target of \<^verbatim>\<open>y*\<close> (\<^verbatim>\<open>prep_send\<close>,
  \<^verbatim>\<open>prep_write\<close>): the view is filled in place and holds a reference on its exporter;
  when a later unit fails, the parser releases the view again.\<close>

definition parse_i_buffer_i :: "state \<Rightarrow> addr \<Rightarrow> pyobj list \<Rightarrow> int \<Rightarrow> (int \<times> int) outcome" where
  "parse_i_buffer_i st self args d3 =
     (if \<not> arg_count_ok args 2 3 then (st, Inl TypeError)
      else case conv_i (args ! 0) of Inl e \<Rightarrow> (st, Inl e) | Inr a \<Rightarrow>
           case args ! 1 of
             PyBytes v \<Rightarrow>
               (case sqes st self of
                  None \<Rightarrow> (st, Inl Undefined)
                | Some so \<Rightarrow>
               (case bytes_heap st v of
                  None \<Rightarrow> (st, Inl Undefined)
                | Some bo \<Rightarrow>
               (case conv_opt conv_i args 2 d3 of
                  Inl e \<Rightarrow> (st\<lparr>sqes := (sqes st)(self \<mapsto> so\<lparr>user_buffer := None\<rparr>)\<rparr>, Inl e)
                | Inr c \<Rightarrow>
                    ((bytes_incref st v)\<lparr>sqes := (sqes st)(self \<mapsto> so\<lparr>user_buffer := Some v\<rparr>)\<rparr>,
                     Inr (a, c)))))
           | x \<Rightarrow> (st, Inl TypeError))"

subsection \<open>liburing's \<^verbatim>\<open>io_uring_prep_*\<close> helpers\<close>

definition io_uring_prep_rw :: "int \<Rightarrow> io_uring_sqe \<Rightarrow> int \<Rightarrow> nat \<Rightarrow> int \<Rightarrow> int \<Rightarrow> io_uring_sqe" where
  "io_uring_prep_rw op q f a n off =
     q\<lparr>opcode := op, sqe_fd := f, sqe_off := off, sqe_addr := a, sqe_len := n mod 2 ^ 32, op_flags := 0\<rparr>"

definition io_uring_prep_nop :: "io_uring_sqe \<Rightarrow> io_uring_sqe" where
  "io_uring_prep_nop q = io_uring_prep_rw IORING_OP_NOP q (- 1) 0 0 0"

definition io_uring_prep_send :: "io_uring_sqe \<Rightarrow> int \<Rightarrow> nat \<Rightarrow> int \<Rightarrow> int \<Rightarrow> io_uring_sqe" where
  "io_uring_prep_send q f a n fl = (io_uring_prep_rw IORING_OP_SEND q f a n 0)\<lparr>op_flags := fl\<rparr>"

definition io_uring_prep_recv :: "io_uring_sqe \<Rightarrow> int \<Rightarrow> nat \<Rightarrow> int \<Rightarrow> int \<Rightarrow> io_uring_sqe" where
  "io_uring_prep_recv q f a n fl = (io_uring_prep_rw IORING_OP_RECV q f a n 0)\<lparr>op_flags := fl\<rparr>"

definition io_uring_prep_read :: "io_uring_sqe \<Rightarrow> int \<Rightarrow> nat \<Rightarrow> int \<Rightarrow> int \<Rightarrow> io_uring_sqe" where
  "io_uring_prep_read q f a n off = io_uring_prep_rw IORING_OP_READ q f a n off"

definition io_uring_prep_write :: "io_uring_sqe \<Rightarrow> int \<Rightarrow> nat \<Rightarrow> int \<Rightarrow> int \<Rightarrow> io_uring_sqe" where
  "io_uring_prep_write q f a n off = io_uring_prep_rw IORING_OP_WRITE q f a n off"

definition io_uring_prep_connect :: "io_uring_sqe \<Rightarrow> int \<Rightarrow> nat \<Rightarrow> int \<Rightarrow> io_uring_sqe" where
  "io_uring_prep_connect q f a addrlen = io_uring_prep_rw IORING_OP_CONNECT q f a 0 addrlen"

definition io_uring_prep_accept :: "io_uring_sqe \<Rightarrow> int \<Rightarrow> nat \<Rightarrow> nat \<Rightarrow> int \<Rightarrow> io_uring_sqe" where
  "io_uring_prep_accept q f a addrlen_ptr fl =
     (io_uring_prep_rw IORING_OP_ACCEPT q f a 0 (int addrlen_ptr))\<lparr>op_flags := fl\<rparr>"

definition io_uring_prep_timeout :: "io_uring_sqe \<Rightarrow> nat \<Rightarrow> int \<Rightarrow> int \<Rightarrow> io_uring_sqe" where
  "io_uring_prep_timeout q ts count fl =
     (io_uring_prep_rw IORING_OP_TIMEOUT q (- 1) ts 1 count)\<lparr>op_flags := fl\<rparr>"

definition io_uring_prep_timeout_remove :: "io_uring_sqe \<Rightarrow> nat \<Rightarrow> int \<Rightarrow> io_uring_sqe" where
  "io_uring_prep_timeout_remove q tag fl =
     (io_uring_prep_rw IORING_OP_TIMEOUT_REMOVE q (- 1) tag 0 0)\<lparr>op_flags := fl\<rparr>"

definition io_uring_prep_cancel :: "io_uring_sqe \<Rightarrow> nat \<Rightarrow> int \<Rightarrow> io_uring_sqe" where
  "io_uring_prep_cancel q tag fl =
     (io_uring_prep_rw IORING_OP_ASYNC_CANCEL q (- 1) tag 0 0)\<lparr>op_flags := fl\<rparr>"

definition io_uring_prep_close :: "io_uring_sqe \<Rightarrow> int \<Rightarrow> io_uring_sqe" where
  "io_uring_prep_close q f = io_uring_prep_rw IORING_OP_CLOSE q f 0 0 0"

subsection \<open>The prepare calls\<close>

text \<open>Every prepare call ends with the same three statements: the liburing helper
  writes the native slot through \<^verbatim>\<open>self->sqe\<close> (undefined when that is \<^verbatim>\<open>NULL\<close>), the
  opcode is copied from the slot into \<^verbatim>\<open>self->operation\<close>, and \<^verbatim>\<open>None\<close> is returned.
  \<open>prep_slot\<close> is that tail, with the helper as \<open>f\<close>.\<close>

definition prep_slot :: "state \<Rightarrow> addr \<Rightarrow> (io_uring_sqe \<Rightarrow> io_uring_sqe) \<Rightarrow> pyobj outcome" where
  "prep_slot st self f =
     (case sqes st self of
        None \<Rightarrow> (st, Inl Undefined)
      | Some so \<Rightarrow>
     (case sqe so of
        None \<Rightarrow> (st, Inl Undefined)
      | Some p \<Rightarrow>
          (st\<lparr>sq := (sq st)(p := f (sq st p)),
              sqes := (sqes st)(self \<mapsto> so\<lparr>operation := opcode (f (sq st p))\<rparr>)\<rparr>,
           Inr PyNone)))"

text \<open>Attaching an owned buffer: \<^verbatim>\<open>self->allocated_buffer = PyBytes_FromStringAndSize(NULL, n)\<close>.\<close>

definition attach_buffer :: "state \<Rightarrow> addr \<Rightarrow> nat \<Rightarrow> state \<times> addr" where
  "attach_buffer st self n =
     (let (st1, b) = bytes_alloc st n
      in (case sqes st1 self of
            None \<Rightarrow> (st1, b)
          | Some so \<Rightarrow> (st1\<lparr>sqes := (sqes st1)(self \<mapsto> so\<lparr>allocated_buffer := Some b\<rparr>)\<rparr>, b)))"

text \<open>Writing \<open>bs\<close> into a bytes object at offset \<open>off\<close>.\<close>

definition bytes_write :: "state \<Rightarrow> addr \<Rightarrow> nat \<Rightarrow> byte list \<Rightarrow> state" where
  "bytes_write st b off bs =
     (case bytes_heap st b of
        None \<Rightarrow> st
      | Some bo \<Rightarrow>
          st\<lparr>bytes_heap := (bytes_heap st)
               (b \<mapsto> bo\<lparr>ob_sval := take off (ob_sval bo) @ bs @ drop (off + length bs) (ob_sval bo)\<rparr>)\<rparr>)"

text \<open>The \<open>k\<close> low bytes of an integer, least significant first, and the cast of a
  \<^verbatim>\<open>double\<close> to \<^verbatim>\<open>long long\<close> (towards zero). A \<^verbatim>\<open>double\<close> is a real number here: the
  rounding of its arithmetic is not part of the model.\<close>

definition le_bytes :: "nat \<Rightarrow> int \<Rightarrow> byte list" where
  "le_bytes k v = map (\<lambda>i. word_of_int (v div 256 ^ i)) [0..<k]"

definition trunc :: "real \<Rightarrow> int" where
  "trunc x = (if 0 \<le> x then \<lfloor>x\<rfloor> else \<lceil>x\<rceil>)"

record kernel_timespec =
  tv_sec :: int
  tv_nsec :: int

definition to_timespec :: "real \<Rightarrow> kernel_timespec" where
  "to_timespec timeout =
     \<lparr>tv_sec = trunc timeout, tv_nsec = trunc ((timeout - of_int (trunc timeout)) * 1000000000)\<rparr>"

definition Sqe_prep_send :: "state \<Rightarrow> addr \<Rightarrow> pyobj list \<Rightarrow> pyobj outcome" where
  "Sqe_prep_send st self args =
     (let st1 = Sqe_reinit_buffer st self
      in case parse_i_buffer_i st1 self args 0 of
           (st2, Inl e) \<Rightarrow> (st2, Inl e)
         | (st2, Inr (f, flags)) \<Rightarrow>
         (case sqes st2 self of
            None \<Rightarrow> (st2, Inl Undefined)
          | Some so \<Rightarrow>
         (case user_buffer so of
            None \<Rightarrow> (st2, Inl Undefined)
          | Some v \<Rightarrow>
         (case bytes_heap st2 v of
            None \<Rightarrow> (st2, Inl Undefined)
          | Some bo \<Rightarrow>
              prep_slot st2 self (\<lambda>q. io_uring_prep_send q f v (int (length (ob_sval bo))) flags)))))"

definition Sqe_prep_write :: "state \<Rightarrow> addr \<Rightarrow> pyobj list \<Rightarrow> pyobj outcome" where
  "Sqe_prep_write st self args =
     (let st1 = Sqe_reinit_buffer st self
      in case parse_i_buffer_i st1 self args (garbage st) of
           (st2, Inl e) \<Rightarrow> (st2, Inl e)
         | (st2, Inr (f, offset)) \<Rightarrow>
         (case sqes st2 self of
            None \<Rightarrow> (st2, Inl Undefined)
          | Some so \<Rightarrow>
         (case user_buffer so of
            None \<Rightarrow> (st2, Inl Undefined)
          | Some v \<Rightarrow>
         (case bytes_heap st2 v of
            None \<Rightarrow> (st2, Inl Undefined)
          | Some bo \<Rightarrow>
              prep_slot st2 self (\<lambda>q. io_uring_prep_write q f v (int (length (ob_sval bo))) offset)))))"

text \<open>\<^verbatim>\<open>prep_recv\<close> and \<^verbatim>\<open>prep_read\<close>. With a negative length
  \<^verbatim>\<open>PyBytes_FromStringAndSize\<close> returns \<^verbatim>\<open>NULL\<close> with \<^verbatim>\<open>SystemError\<close> set; the code goes on,
  prepares the slot with the pointer computed from \<^verbatim>\<open>NULL\<close>, and returns \<^verbatim>\<open>None\<close> with
  the exception still set, which the interpreter raises.\<close>

definition Sqe_prep_recv :: "state \<Rightarrow> addr \<Rightarrow> pyobj list \<Rightarrow> pyobj outcome" where
  "Sqe_prep_recv st self args =
     (let st1 = Sqe_reinit_buffer st self
      in case parse_ii_i args 0 of
           Inl e \<Rightarrow> (st1, Inl e)
         | Inr (f, n, flags) \<Rightarrow>
             if n < 0 then
               (case prep_slot st1 self (\<lambda>q. io_uring_prep_recv q f 0 n flags) of
                  (st2, Inl e) \<Rightarrow> (st2, Inl e)
                | (st2, Inr r) \<Rightarrow> (st2, Inl SystemError))
             else
               (let (st2, b) = attach_buffer st1 self (nat n)
                in prep_slot st2 self (\<lambda>q. io_uring_prep_recv q f b n flags)))"

definition Sqe_prep_read :: "state \<Rightarrow> addr \<Rightarrow> pyobj list \<Rightarrow> pyobj outcome" where
  "Sqe_prep_read st self args =
     (let st1 = Sqe_reinit_buffer st self
      in case parse_ii_i args (garbage st) of
           Inl e \<Rightarrow> (st1, Inl e)
         | Inr (f, n, offset) \<Rightarrow>
             if n < 0 then
               (case prep_slot st1 self (\<lambda>q. io_uring_prep_read q f 0 n offset) of
                  (st2, Inl e) \<Rightarrow> (st2, Inl e)
                | (st2, Inr r) \<Rightarrow> (st2, Inl SystemError))
             else
               (let (st2, b) = attach_buffer st1 self (nat n)
                in prep_slot st2 self (\<lambda>q. io_uring_prep_read q f b n offset)))"

text \<open>\<^verbatim>\<open>prep_connect\<close>: the owned buffer is a \<^verbatim>\<open>struct sockaddr_in\<close> (16 bytes): the
  family \<^verbatim>\<open>AF_INET = 2\<close>, the port in network byte order, the address that libc's
  \<^verbatim>\<open>inet_pton\<close> writes (nothing when it rejects the text; its return value is not looked
  at). \<open>inet_pton\<close> is an argument of the model.\<close>

definition Sqe_prep_connect ::
    "(string \<Rightarrow> byte list option) \<Rightarrow> state \<Rightarrow> addr \<Rightarrow> pyobj list \<Rightarrow> pyobj outcome" where
  "Sqe_prep_connect inet_pton st self args =
     (let st1 = Sqe_reinit_buffer st self
      in if \<not> arg_count_ok args 2 2 then (st1, Inl TypeError)
         else case conv_i (args ! 0) of Inl e \<Rightarrow> (st1, Inl e) | Inr f \<Rightarrow>
              case conv_O_bang PyTuple_Type (args ! 1) of
                Inr (PyTuple addrobj) \<Rightarrow>
                  (if \<not> arg_count_ok addrobj 2 2 then (st1, Inl TypeError)
                   else case conv_s (addrobj ! 0) of Inl e \<Rightarrow> (st1, Inl e) | Inr ip \<Rightarrow>
                        case conv_I (addrobj ! 1) of Inl e \<Rightarrow> (st1, Inl e) | Inr port \<Rightarrow>
                          (let (st2, b) = attach_buffer st1 self 16;
                               st3 = bytes_write st2 b 0 (le_bytes 2 2);
                               st4 = (case inet_pton ip of
                                        None \<Rightarrow> st3
                                      | Some bs \<Rightarrow> bytes_write st3 b 4 (take 4 bs));
                               st5 = bytes_write st4 b 2 (rev (le_bytes 2 port))
                           in prep_slot st5 self (\<lambda>q. io_uring_prep_connect q f b 16)))
              | Inr x \<Rightarrow> (st1, Inl TypeError)
              | Inl e \<Rightarrow> (st1, Inl e))"

text \<open>\<^verbatim>\<open>prep_accept\<close>: the owned buffer holds a \<^verbatim>\<open>struct sockaddr_in\<close> followed by a
  \<^verbatim>\<open>socklen_t\<close> that is set to 16.\<close>

definition Sqe_prep_accept :: "state \<Rightarrow> addr \<Rightarrow> pyobj list \<Rightarrow> pyobj outcome" where
  "Sqe_prep_accept st self args =
     (let st1 = Sqe_reinit_buffer st self
      in case parse_i_i args 0 of
           Inl e \<Rightarrow> (st1, Inl e)
         | Inr (f, flags) \<Rightarrow>
             (let (st2, b) = attach_buffer st1 self 20;
                  st3 = bytes_write st2 b 16 (le_bytes 4 16)
              in prep_slot st3 self (\<lambda>q. io_uring_prep_accept q f b (b + 16) flags)))"

definition Sqe_prep_nop :: "state \<Rightarrow> addr \<Rightarrow> pyobj outcome" where
  "Sqe_prep_nop st self = prep_slot st self io_uring_prep_nop"

text \<open>\<^verbatim>\<open>prep_timeout\<close>: the owned buffer is a \<^verbatim>\<open>struct __kernel_timespec\<close>.\<close>

definition Sqe_prep_timeout :: "state \<Rightarrow> addr \<Rightarrow> pyobj list \<Rightarrow> pyobj outcome" where
  "Sqe_prep_timeout st self args =
     (let st1 = Sqe_reinit_buffer st self
      in case parse_d_II args of
           Inl e \<Rightarrow> (st1, Inl e)
         | Inr (timeout, count, flags) \<Rightarrow>
             (let (st2, b) = attach_buffer st1 self 16;
                  ts = to_timespec timeout;
                  st3 = bytes_write st2 b 0 (le_bytes 8 (tv_sec ts) @ le_bytes 8 (tv_nsec ts))
              in prep_slot st3 self (\<lambda>q. io_uring_prep_timeout q b count flags)))"

text \<open>\<^verbatim>\<open>prep_timeout_remove\<close>. The format is \<^verbatim>\<open>"O!I|prep_timeout_remove"\<close> and the
  arguments after it are \<^verbatim>\<open>&timeout, &flags\<close>: where \<^verbatim>\<open>O!\<close> expects the address of a type
  object it is given the address of the local \<^verbatim>\<open>timeout\<close>, and the format has no \<^verbatim>\<open>:\<close>
  before the name, whose letters count as optional units (two to fifteen arguments pass
  the count check). No conversion ever writes \<^verbatim>\<open>timeout\<close>: the tag the code would encode
  is what that local happens to hold.\<close>

definition Sqe_prep_timeout_remove :: "state \<Rightarrow> addr \<Rightarrow> pyobj list \<Rightarrow> pyobj outcome" where
  "Sqe_prep_timeout_remove st self args =
     (if \<not> arg_count_ok args 2 15 then (st, Inl TypeError)
      else case conv_O_bang NotAType (args ! 0) of
             Inl e \<Rightarrow> (st, Inl e)
           | Inr x \<Rightarrow>
               prep_slot st self (\<lambda>q. io_uring_prep_timeout_remove q (nat (garbage st)) 0))"

text \<open>\<^verbatim>\<open>prep_cancel\<close>: \<^verbatim>\<open>"O!I:prep_cancel"\<close> with \<^verbatim>\<open>&SqeType, &cancel, &flags\<close>. The
  pointer to the target request is what the slot gets.\<close>

definition Sqe_prep_cancel :: "state \<Rightarrow> addr \<Rightarrow> pyobj list \<Rightarrow> pyobj outcome" where
  "Sqe_prep_cancel st self args =
     (if \<not> arg_count_ok args 2 2 then (st, Inl TypeError)
      else case conv_O_bang SqeType (args ! 0) of
             Inr (PySqe cancel) \<Rightarrow>
               (case conv_I (args ! 1) of
                  Inl e \<Rightarrow> (st, Inl e)
                | Inr flags \<Rightarrow> prep_slot st self (\<lambda>q. io_uring_prep_cancel q cancel flags))
           | Inr x \<Rightarrow> (st, Inl TypeError)
           | Inl e \<Rightarrow> (st, Inl e))"

definition Sqe_prep_close :: "state \<Rightarrow> addr \<Rightarrow> pyobj list \<Rightarrow> pyobj outcome" where
  "Sqe_prep_close st self args =
     (case parse_i args of
        Inl e \<Rightarrow> (st, Inl e)
      | Inr f \<Rightarrow> prep_slot st self (\<lambda>q. io_uring_prep_close q f))"

text \<open>\<^verbatim>\<open>prep_openat\<close> prepares nothing and copies the slot's opcode.\<close>

definition Sqe_prep_openat :: "state \<Rightarrow> addr \<Rightarrow> pyobj list \<Rightarrow> pyobj outcome" where
  "Sqe_prep_openat st self args = prep_slot st self (\<lambda>q. q)"

definition Sqe_set_data :: "state \<Rightarrow> addr \<Rightarrow> pyobj list \<Rightarrow> pyobj outcome" where
  "Sqe_set_data st self args =
     (case sqes st self of
        None \<Rightarrow> (st, Inl Undefined)
      | Some so \<Rightarrow>
          if \<not> arg_count_ok args 1 1 then (st, Inl TypeError)
          else (st\<lparr>sqes := (sqes st)(self \<mapsto> so\<lparr>data := args ! 0\<rparr>)\<rparr>, Inr PyNone))"

subsection \<open>\<^verbatim>\<open>IoUring_wait_cqe_nr\<close> and \<^verbatim>\<open>IoUring_wait_cqes\<close>\<close>

definition IoUring_wait_cqe_nr :: "(nat \<Rightarrow> int \<times> addr) \<Rightarrow> state \<Rightarrow> pyobj list \<Rightarrow> pyobj outcome" where
  "IoUring_wait_cqe_nr io_uring_wait_cqe_nr st args =
     (case parse_I args of
        Inl e \<Rightarrow> (st, Inl e)
      | Inr wait_nr \<Rightarrow> IoUring_wait_cqe_nr_impl io_uring_wait_cqe_nr st wait_nr)"

text \<open>\<^verbatim>\<open>IoUring_wait_cqes\<close>, in the two halves the native call separates. Before it:
  the arguments are parsed (\<^verbatim>\<open>timeout\<close> is initialised to 0 and keeps that value when
  the optional argument is absent), and the timeout pointer for \<^verbatim>\<open>io_uring_wait_cqes\<close> is
  \<^verbatim>\<open>&ts\<close> when \<^verbatim>\<open>if (timeout)\<close> holds, \<^verbatim>\<open>NULL\<close> otherwise. \<open>wait_cqes_call\<close> gives the
  arguments of the native call.\<close>

definition wait_cqes_ts :: "real \<Rightarrow> kernel_timespec option" where
  "wait_cqes_ts timeout = (if timeout \<noteq> 0 then Some (to_timespec timeout) else None)"

definition wait_cqes_call :: "pyobj list \<Rightarrow> error + nat \<times> kernel_timespec option" where
  "wait_cqes_call args =
     (case parse_I_d args of
        Inl e \<Rightarrow> Inl e
      | Inr (wait_nr, timeout) \<Rightarrow> Inr (wait_nr, wait_cqes_ts timeout))"

text \<open>After it: any return code other than 0 is raised as an error; otherwise the
  entries are wrapped. (The loop's test \<^verbatim>\<open>if (cqe)\<close> is on \<^verbatim>\<open>cqes + i\<close>, which is not
  \<^verbatim>\<open>NULL\<close> for a ring's entry.)\<close>

definition wait_cqes_finish :: "state \<Rightarrow> nat \<Rightarrow> int \<times> addr \<Rightarrow> pyobj outcome" where
  "wait_cqes_finish st wait_nr answer =
     (let (ret, base) = answer
      in if ret \<noteq> 0 then (st, Inl (OSError (- ret)))
         else (case wrap_loop st base [0..<wait_nr] [] of
                 (st1, Inl e) \<Rightarrow> (st1, Inl e)
               | (st1, Inr rlist) \<Rightarrow> (st1, Inr (PyList rlist))))"

text \<open>\<open>io_uring_wait_cqes\<close> is the native call: given \<open>wait_nr\<close> and the timeout pointer
  it answers a return code and the pointer to the first ready entry.\<close>

definition IoUring_wait_cqes ::
    "(nat \<Rightarrow> kernel_timespec option \<Rightarrow> int \<times> addr) \<Rightarrow> state \<Rightarrow> pyobj list \<Rightarrow> pyobj outcome" where
  "IoUring_wait_cqes io_uring_wait_cqes st args =
     (case wait_cqes_call args of
        Inl e \<Rightarrow> (st, Inl e)
      | Inr (wait_nr, ts) \<Rightarrow> wait_cqes_finish st wait_nr (io_uring_wait_cqes wait_nr ts))"

subsection \<open>\<^verbatim>\<open>Cqe_getresult\<close>\<close>

text \<open>The result decoder. The raw result is read through the wrapper's pointer into the
  completion ring, the opcode from the request the wrapper refers to. A negative result
  returns first; then the \<^verbatim>\<open>switch\<close> on the opcode.\<close>

definition Cqe_getresult :: "state \<Rightarrow> addr \<Rightarrow> pyobj outcome" where
  "Cqe_getresult st self =
     (case cqes st self of
        None \<Rightarrow> (st, Inl Undefined)
      | Some co \<Rightarrow>
     (case sqeobj co of
        None \<Rightarrow> (st, Inl Undefined)
      | Some s \<Rightarrow>
     (case sqes st s of
        None \<Rightarrow> (st, Inl Undefined)
      | Some so \<Rightarrow>
     (case cqe co of
        None \<Rightarrow> (st, Inl Undefined)
      | Some p \<Rightarrow>
     (case cq st p of
        None \<Rightarrow> (st, Inl Undefined)
      | Some e \<Rightarrow>
          if res e <s 0 then (st, Inl (OSError (sint (- res e))))
          else if operation so = IORING_OP_NOP then (st, Inr PyNone)
          else if operation so = IORING_OP_READ \<or> operation so = IORING_OP_RECV then
            (case allocated_buffer so of
               None \<Rightarrow> (st, Inl Undefined)
             | Some b \<Rightarrow>
            (case bytes_heap st b of
               None \<Rightarrow> (st, Inl Undefined)
             | Some bo \<Rightarrow>
                 if sint (res e) \<noteq> int (length (ob_sval bo)) then
                   (case PyBytes_Resize st b (sint (res e)) of
                      (st1, None) \<Rightarrow>
                        (st1\<lparr>sqes := (sqes st1)(s \<mapsto> so\<lparr>allocated_buffer := None\<rparr>)\<rparr>,
                         Inl SystemError)
                    | (st1, Some b') \<Rightarrow>
                        (bytes_incref
                           (st1\<lparr>sqes := (sqes st1)(s \<mapsto> so\<lparr>allocated_buffer := Some b'\<rparr>)\<rparr>) b',
                         Inr (PyBytes b')))
                 else (bytes_incref st b, Inr (PyBytes b))))
          else (st, Inr (PyLong (sint (res e)))))))))"

subsection \<open>Vocabulary of the properties\<close>


text \<open>The wrapper \<open>self\<close> is live and refers to the live request \<open>s\<close> and the
  completion entry \<open>e\<close>.\<close>

definition wrapper_of :: "state \<Rightarrow> addr \<Rightarrow> addr \<Rightarrow> SqeObject \<Rightarrow> io_uring_cqe \<Rightarrow> bool" where
  "wrapper_of st self s so e =
     (case cqes st self of
        None \<Rightarrow> False
      | Some co \<Rightarrow> sqeobj co = Some s \<and> sqes st s = Some so \<and>
          (case cqe co of None \<Rightarrow> False | Some p \<Rightarrow> cq st p = Some e))"

text \<open>The request's owned buffer is the bytes object \<open>b\<close>, with contents \<open>bs\<close>; and the
  request holds the only reference to it, as it does from the prepare call on.\<close>

definition owned_buffer :: "state \<Rightarrow> SqeObject \<Rightarrow> addr \<Rightarrow> byte list \<Rightarrow> bool" where
  "owned_buffer st so b bs =
     (allocated_buffer so = Some b \<and>
      (case bytes_heap st b of None \<Rightarrow> False | Some bo \<Rightarrow> ob_sval bo = bs))"

definition sole_owner :: "state \<Rightarrow> addr \<Rightarrow> bool" where
  "sole_owner st b = (case bytes_heap st b of None \<Rightarrow> False | Some bo \<Rightarrow> bytes_refcnt bo = 1)"

subsection \<open>The stores of some short runs\<close>

text \<open>The store before anything is allocated, and the store after this run: a request
  is acquired (slot 0), prepared as a read of 4 bytes from descriptor 3, and submitted;
  the kernel posts its completion with result \<open>r\<close>; \<^verbatim>\<open>wait_cqe\<close> wraps it. The request
  is object 0, its buffer object 1, the wrapper object 2.\<close>

definition init_state :: state where
  "init_state = \<lparr>sqes = Map.empty, cqes = Map.empty, bytes_heap = Map.empty, next_addr = 0,
     free_blocks = [], empty_bytes = None, wait_submit = [],
     sq = (\<lambda>p. \<lparr>opcode = 0, sqe_fd = 0, sqe_off = 0, sqe_addr = 0, sqe_len = 0, op_flags = 0, user_data = 0\<rparr>),
     cq = Map.empty, cq_head = 0, uninit = (\<lambda>i. 0), garbage = 0\<rparr>"

definition prepared_read :: state where
  "prepared_read =
     (let st1 = fst (IoUring_get_sqe init_state (Some 0))
      in fst (Sqe_prep_read st1 0 [PyLong 3, PyLong 4]))"

definition completed_read :: "32 word \<Rightarrow> state" where
  "completed_read r =
     (let st3 = fst (IoUring_submit prepared_read 1);
          st4 = st3\<lparr>cq := [0 \<mapsto> \<lparr>cqe_user_data = 0, res = r\<rparr>]\<rparr>
      in fst (IoUring_wait_cqe (\<lambda>n. (0, 0)) st4))"

text \<open>The request of that run as the store then holds it: referred to by the caller,
  by the submission's pin and by the wrapper.\<close>

definition completed_read_sqe :: SqeObject where
  "completed_read_sqe = \<lparr>sqe_refcnt = 3, sqe = Some 0, fd = - 1, error = 0, operation = IORING_OP_READ,
     allocated_buffer = Some 1, user_buffer = None, data = PyNone, cqeobj = Some 2\<rparr>"

text \<open>Two requests acquired (slots 10 and 11) and prepared as no-ops, not yet
  submitted: objects 0 and 1.\<close>

definition two_pending :: state where
  "two_pending =
     (let st1 = fst (IoUring_get_sqe init_state (Some 10));
          st2 = fst (Sqe_prep_nop st1 0);
          st3 = fst (IoUring_get_sqe st2 (Some 11))
      in fst (Sqe_prep_nop st3 1))"

text \<open>A timeout request (object 0, slot 10, its duration in object 1) and a second
  request (object 2, slot 11) that is to cancel or remove it.\<close>

definition timeout_and_second :: state where
  "timeout_and_second =
     (let st1 = fst (IoUring_get_sqe init_state (Some 10));
          st2 = fst (Sqe_prep_timeout st1 0 [PyFloat 1])
      in fst (IoUring_get_sqe st2 (Some 11)))"

text \<open>A native \<^verbatim>\<open>io_uring_wait_cqes\<close> that tells what it was handed: it answers
  \<^verbatim>\<open>-ETIME\<close> (62) when given a timeout and \<^verbatim>\<open>-EINTR\<close> (4) when given none.\<close>

definition probe_timeout :: "nat \<Rightarrow> kernel_timespec option \<Rightarrow> int \<times> addr" where
  "probe_timeout wait_nr ts = (case ts of None \<Rightarrow> (- 4, 0) | Some t \<Rightarrow> (- 62, 0))"

subsection \<open>Validation errors\<close>

text \<open>The errors the argument conversion of a prepare call raises: a wrong number of
  arguments or a wrong type (\<^verbatim>\<open>TypeError\<close>), an integer outside the C type
  (\<^verbatim>\<open>OverflowError\<close>).\<close>

definition validation_error :: "error \<Rightarrow> bool" where
  "validation_error e = (e = TypeError \<or> e = OverflowError)"

subsection \<open>Runs of the module\<close>

text \<open>A run is a sequence of steps: a call of one of the module's methods, the caller
  dropping a reference to a request or to a completion wrapper (dropping the last one
  runs the deallocator), and the kernel posting completions.\<close>

datatype call =
    GetSqe "addr option"
  | Submit int
  | WaitCqe "nat \<Rightarrow> int \<times> addr"
  | PeekCqe "nat \<Rightarrow> int \<times> addr"
  | WaitCqeNr "nat \<Rightarrow> int \<times> addr" "pyobj list"
  | WaitCqes "nat \<Rightarrow> kernel_timespec option \<Rightarrow> int \<times> addr" "pyobj list"
  | CqeSeen "pyobj list"
  | PrepSend addr "pyobj list"
  | PrepRecv addr "pyobj list"
  | PrepConnect "string \<Rightarrow> byte list option" addr "pyobj list"
  | PrepAccept addr "pyobj list"
  | PrepRead addr "pyobj list"
  | PrepWrite addr "pyobj list"
  | PrepNop addr
  | PrepTimeout addr "pyobj list"
  | PrepTimeoutRemove addr "pyobj list"
  | PrepClose addr "pyobj list"
  | PrepOpenat addr "pyobj list"
  | PrepCancel addr "pyobj list"
  | SetData addr "pyobj list"
  | GetResult addr
  | DropSqe addr
  | DropCqe addr
  | KernelCq "addr \<rightharpoonup> io_uring_cqe"

definition undefined_or :: "state \<Rightarrow> state option \<Rightarrow> pyobj outcome" where
  "undefined_or st r = (case r of None \<Rightarrow> (st, Inl Undefined) | Some st' \<Rightarrow> (st', Inr PyNone))"

fun exec :: "state \<Rightarrow> call \<Rightarrow> pyobj outcome" where
  "exec st (GetSqe slot) = IoUring_get_sqe st slot"
| "exec st (Submit ret) = IoUring_submit st ret"
| "exec st (WaitCqe k) = IoUring_wait_cqe k st"
| "exec st (PeekCqe k) = IoUring_peek_cqe k st"
| "exec st (WaitCqeNr k args) = IoUring_wait_cqe_nr k st args"
| "exec st (WaitCqes k args) = IoUring_wait_cqes k st args"
| "exec st (CqeSeen args) = IoUring_cqe_seen st args"
| "exec st (PrepSend self args) = Sqe_prep_send st self args"
| "exec st (PrepRecv self args) = Sqe_prep_recv st self args"
| "exec st (PrepConnect inet_pton self args) = Sqe_prep_connect inet_pton st self args"
| "exec st (PrepAccept self args) = Sqe_prep_accept st self args"
| "exec st (PrepRead self args) = Sqe_prep_read st self args"
| "exec st (PrepWrite self args) = Sqe_prep_write st self args"
| "exec st (PrepNop self) = Sqe_prep_nop st self"
| "exec st (PrepTimeout self args) = Sqe_prep_timeout st self args"
| "exec st (PrepTimeoutRemove self args) = Sqe_prep_timeout_remove st self args"
| "exec st (PrepClose self args) = Sqe_prep_close st self args"
| "exec st (PrepOpenat self args) = Sqe_prep_openat st self args"
| "exec st (PrepCancel self args) = Sqe_prep_cancel st self args"
| "exec st (SetData self args) = Sqe_set_data st self args"
| "exec st (GetResult self) = Cqe_getresult st self"
| "exec st (DropSqe a) = undefined_or st (sqe_decref st a)"
| "exec st (DropCqe a) = undefined_or st (cqe_decref st a)"
| "exec st (KernelCq m) = (st\<lparr>cq := m\<rparr>, Inr PyNone)"

text \<open>A run from a store, with the result of every step.\<close>

fun run :: "state \<Rightarrow> call list \<Rightarrow> state \<times> (error + pyobj) list" where
  "run st [] = (st, [])"
| "run st (c # cs) =
     (case exec st c of
        (st1, r) \<Rightarrow> (case run st1 cs of (st2, rs) \<Rightarrow> (st2, r # rs)))"

text \<open>Two requests are acquired (slots 10 and 11), prepared as no-ops and submitted, and
  both complete; \<^verbatim>\<open>wait_cqe_nr(2)\<close> wraps both completions. The caller acknowledges the
  second wrapper, which hands the first slot of the completion ring back to the kernel,
  and drops it. The head of the completion ring is now the second request's entry:
  \<^verbatim>\<open>wait_cqe\<close> wraps it again, and the caller acknowledges the new wrapper, keeps it, and
  drops the second request. Then a third request is acquired (slot 12), prepared,
  submitted and completed, and \<^verbatim>\<open>wait_cqe\<close> wraps its completion.

  In Python: \<^verbatim>\<open>r0 = ring.get_sqe(); r0.prep_nop(); r1 = ring.get_sqe(); r1.prep_nop();\<close>
  \<^verbatim>\<open>ring.submit(); a, b = ring.wait_cqe_nr(2); ring.cqe_seen(b); del b;\<close>
  \<^verbatim>\<open>b2 = ring.wait_cqe(); ring.cqe_seen(b2); del r1;\<close>
  \<^verbatim>\<open>r2 = ring.get_sqe(); r2.prep_nop(); ring.submit(); c = ring.wait_cqe()\<close>.\<close>

definition acknowledged_twice :: "call list" where
  "acknowledged_twice =
     [GetSqe (Some 10), PrepNop 0, GetSqe (Some 11), PrepNop 1, Submit 2,
      KernelCq [0 \<mapsto> \<lparr>cqe_user_data = 0, res = 0\<rparr>, 1 \<mapsto> \<lparr>cqe_user_data = 1, res = 0\<rparr>],
      WaitCqeNr (\<lambda>n. (0, 0)) [PyLong 2],
      CqeSeen [PyCqe 3], DropCqe 3,
      WaitCqe (\<lambda>n. (0, 1)),
      CqeSeen [PyCqe 3], DropSqe 1,
      GetSqe (Some 12), PrepNop 1, Submit 1,
      KernelCq [0 \<mapsto> \<lparr>cqe_user_data = 0, res = 0\<rparr>, 1 \<mapsto> \<lparr>cqe_user_data = 1, res = 0\<rparr>,
                2 \<mapsto> \<lparr>cqe_user_data = 1, res = 0\<rparr>],
      WaitCqe (\<lambda>n. (0, 2))]"

section \<open>Properties\<close>

subsection \<open>Auxiliary facts\<close>

lemmas opcode_defs =
  IORING_OP_NOP_def IORING_OP_TIMEOUT_def IORING_OP_TIMEOUT_REMOVE_def
  IORING_OP_ACCEPT_def IORING_OP_ASYNC_CANCEL_def IORING_OP_CONNECT_def
  IORING_OP_CLOSE_def IORING_OP_READ_def IORING_OP_WRITE_def IORING_OP_SEND_def
  IORING_OP_RECV_def

lemma sint_neg_32:
  fixes r :: "32 word"
  assumes "sint r \<noteq> - (2 ^ 31)"
  shows "sint (- r) = - sint r"
proof -
  have "- (2 ^ 31) \<le> sint r" "sint r < 2 ^ 31"
    using sint_ge [of r] sint_lt [of r] by simp_all
  with assms have "- (2 ^ 31) \<le> - sint r \<and> - sint r < 2 ^ 31" by simp
  then have "signed_take_bit 31 (- sint r) = - sint r"
    by (simp add: signed_take_bit_int_eq_self_iff)
  then show ?thesis by (simp add: sint_word_ariths)
qed

subsection \<open>The allocator and bytes objects\<close>

lemma malloc_fields:
  "sqes (fst (PyObject_Malloc st k)) = sqes st"
  "cqes (fst (PyObject_Malloc st k)) = cqes st"
  "bytes_heap (fst (PyObject_Malloc st k)) = bytes_heap st"
  "cq (fst (PyObject_Malloc st k)) = cq st"
  "sq (fst (PyObject_Malloc st k)) = sq st"
  "uninit (fst (PyObject_Malloc st k)) = uninit st"
  "garbage (fst (PyObject_Malloc st k)) = garbage st"
  "empty_bytes (fst (PyObject_Malloc st k)) = empty_bytes st"
  by (simp_all add: PyObject_Malloc_def split: option.splits)

lemma malloc_unused:
  assumes "bytes_heap st (next_addr st) = None"
  shows "bytes_heap st (snd (PyObject_Malloc st k)) = None"
proof (cases "find (\<lambda>e. fst e = k \<and> is_free st (snd e)) (free_blocks st)")
  case None
  with assms show ?thesis by (simp add: PyObject_Malloc_def)
next
  case (Some e)
  then have "is_free st (snd e)" by (auto simp: find_Some_iff)
  with Some show ?thesis by (simp add: PyObject_Malloc_def is_free_def)
qed

lemma bytes_decref_fields:
  "sqes (bytes_decref st b) = sqes st"
  "cqes (bytes_decref st b) = cqes st"
  "cq (bytes_decref st b) = cq st"
  "sq (bytes_decref st b) = sq st"
  "uninit (bytes_decref st b) = uninit st"
  "garbage (bytes_decref st b) = garbage st"
  "next_addr (bytes_decref st b) = next_addr st"
  "empty_bytes (bytes_decref st b) = empty_bytes st"
  by (simp_all add: bytes_decref_def PyObject_Free_def split: option.splits)

lemma bytes_decref_other:
  "a \<noteq> b \<Longrightarrow> bytes_heap (bytes_decref st b) a = bytes_heap st a"
  by (simp add: bytes_decref_def PyObject_Free_def split: option.splits)

lemma bytes_decref_last:
  "bytes_heap st b = Some bo \<Longrightarrow> bytes_refcnt bo = 1 \<Longrightarrow> bytes_heap (bytes_decref st b) b = None"
  by (simp add: bytes_decref_def PyObject_Free_def)

lemma bytes_create_empty_props:
  assumes "bytes_heap st (next_addr st) = None"
  obtains st1 b' where "bytes_create_empty st = (st1, b')"
    "bytes_heap st1 = (bytes_heap st)(b' \<mapsto> \<lparr>bytes_refcnt = 2, ob_sval = []\<rparr>)"
    "bytes_heap st b' = None"
    "sqes st1 = sqes st" "cqes st1 = cqes st" "cq st1 = cq st" "empty_bytes st1 = Some b'"
proof -
  let ?m = "PyObject_Malloc st (bytes_class 0)"
  let ?st1 = "(fst ?m)\<lparr>bytes_heap := (bytes_heap (fst ?m))(snd ?m \<mapsto> \<lparr>bytes_refcnt = 2, ob_sval = []\<rparr>),
              empty_bytes := Some (snd ?m)\<rparr>"
  have "bytes_create_empty st = (?st1, snd ?m)"
    by (simp add: bytes_create_empty_def case_prod_unfold Let_def)
  moreover have "bytes_heap ?st1 = (bytes_heap st)(snd ?m \<mapsto> \<lparr>bytes_refcnt = 2, ob_sval = []\<rparr>)"
    by (simp add: malloc_fields)
  moreover have "bytes_heap st (snd ?m) = None"
    using assms by (rule malloc_unused)
  moreover have "sqes ?st1 = sqes st" "cqes ?st1 = cqes st" "cq ?st1 = cq st"
    "empty_bytes ?st1 = Some (snd ?m)"
    by (simp_all add: malloc_fields)
  ultimately show thesis by (rule that)
qed

lemma bytes_new_empty_props:
  assumes "bytes_heap st (next_addr st) = None"
  obtains st1 b' bo' where "bytes_new_empty st = (st1, b')"
    "bytes_heap st1 b' = Some bo'" "ob_sval bo' = []"
    "\<forall>a. a \<noteq> b' \<longrightarrow> bytes_heap st1 a = bytes_heap st a"
    "sqes st1 = sqes st" "cqes st1 = cqes st" "cq st1 = cq st" "empty_bytes st1 = Some b'"
    "\<forall>bo. bytes_heap st b' = Some bo \<longrightarrow> ob_sval bo = []"
proof -
  note result = that
  have create: thesis if c: "bytes_new_empty st = bytes_create_empty st"
  proof -
    from assms obtain st1 b' where 1: "bytes_create_empty st = (st1, b')"
      "bytes_heap st1 = (bytes_heap st)(b' \<mapsto> \<lparr>bytes_refcnt = 2, ob_sval = []\<rparr>)"
      "bytes_heap st b' = None"
      "sqes st1 = sqes st" "cqes st1 = cqes st" "cq st1 = cq st" "empty_bytes st1 = Some b'"
      by (rule bytes_create_empty_props)
    show thesis
    proof (rule result)
      show "bytes_new_empty st = (st1, b')" using c 1(1) by simp
      show "bytes_heap st1 b' = Some \<lparr>bytes_refcnt = 2, ob_sval = []\<rparr>" using 1(2) by simp
      show "ob_sval \<lparr>bytes_refcnt = 2, ob_sval = []\<rparr> = []" by simp
      show "\<forall>a. a \<noteq> b' \<longrightarrow> bytes_heap st1 a = bytes_heap st a" using 1(2) by simp
      show "sqes st1 = sqes st" "cqes st1 = cqes st" "cq st1 = cq st" "empty_bytes st1 = Some b'"
        by (fact 1)+
      show "\<forall>bo. bytes_heap st b' = Some bo \<longrightarrow> ob_sval bo = []" using 1(3) by simp
    qed
  qed
  show thesis
  proof (cases "empty_bytes st")
    case None
    then show thesis by (intro create) (simp add: bytes_new_empty_def)
  next
    case (Some a)
    show thesis
    proof (cases "bytes_heap st a")
      case None
      with Some show thesis by (intro create) (simp add: bytes_new_empty_def)
    next
      case (Some bo)
      note bo = this
      show thesis
      proof (cases "ob_sval bo = []")
        case False
        with bo \<open>empty_bytes st = Some a\<close> show thesis
          by (intro create) (simp add: bytes_new_empty_def)
      next
        case True
        show thesis
        proof (rule result)
          show "bytes_new_empty st = (bytes_incref st a, a)"
            using True bo \<open>empty_bytes st = Some a\<close> by (simp add: bytes_new_empty_def)
          show "bytes_heap (bytes_incref st a) a = Some (bo\<lparr>bytes_refcnt := bytes_refcnt bo + 1\<rparr>)"
            using bo by (simp add: bytes_incref_def)
          show "ob_sval (bo\<lparr>bytes_refcnt := bytes_refcnt bo + 1\<rparr>) = []" using True by simp
          show "\<forall>x. x \<noteq> a \<longrightarrow> bytes_heap (bytes_incref st a) x = bytes_heap st x"
            using bo by (simp add: bytes_incref_def)
          show "sqes (bytes_incref st a) = sqes st" "cqes (bytes_incref st a) = cqes st"
            "cq (bytes_incref st a) = cq st"
            using bo by (simp_all add: bytes_incref_def)
          show "empty_bytes (bytes_incref st a) = Some a"
            using bo \<open>empty_bytes st = Some a\<close> by (simp add: bytes_incref_def)
          show "\<forall>x. bytes_heap st a = Some x \<longrightarrow> ob_sval x = []" using bo True by simp
        qed
      qed
    qed
  qed
qed

lemma bytes_alloc_props:
  assumes "bytes_heap st (next_addr st) = None"
  obtains st1 b' bo' where "bytes_alloc st n = (st1, b')"
    "bytes_heap st1 b' = Some bo'" "ob_sval bo' = map (uninit st) [0..<n]"
    "\<forall>a. a \<noteq> b' \<longrightarrow> bytes_heap st1 a = bytes_heap st a"
    "sqes st1 = sqes st" "cqes st1 = cqes st" "cq st1 = cq st" "sq st1 = sq st"
    "0 < n \<longrightarrow> bytes_refcnt bo' = 1 \<and> bytes_heap st b' = None"
proof (cases "n = 0")
  case True
  from assms obtain st1 b' bo' where 1: "bytes_new_empty st = (st1, b')"
    "bytes_heap st1 b' = Some bo'" "ob_sval bo' = []"
    "\<forall>a. a \<noteq> b' \<longrightarrow> bytes_heap st1 a = bytes_heap st a"
    "sqes st1 = sqes st" "cqes st1 = cqes st" "cq st1 = cq st" "empty_bytes st1 = Some b'"
    "\<forall>bo. bytes_heap st b' = Some bo \<longrightarrow> ob_sval bo = []"
    by (rule bytes_new_empty_props)
  have "sq st1 = sq st"
    using 1(1)
    by (auto simp: bytes_new_empty_def bytes_create_empty_def bytes_incref_def malloc_fields
        case_prod_unfold Let_def split: option.splits if_splits)
  moreover have "bytes_alloc st n = (st1, b')" using True 1(1) by (simp add: bytes_alloc_def)
  ultimately show thesis using 1 True by (intro that [of st1 b' bo']) simp_all
next
  case False
  let ?m = "PyObject_Malloc st (bytes_class n)"
  let ?bo = "\<lparr>bytes_refcnt = 1, ob_sval = map (uninit st) [0..<n]\<rparr>"
  let ?st1 = "(fst ?m)\<lparr>bytes_heap := (bytes_heap (fst ?m))(snd ?m \<mapsto> ?bo)\<rparr>"
  have "bytes_alloc st n = (?st1, snd ?m)"
    using False by (simp add: bytes_alloc_def case_prod_unfold Let_def)
  moreover have "bytes_heap ?st1 (snd ?m) = Some ?bo" by simp
  moreover have "ob_sval ?bo = map (uninit st) [0..<n]" by simp
  moreover have "\<forall>a. a \<noteq> snd ?m \<longrightarrow> bytes_heap ?st1 a = bytes_heap st a"
    by (simp add: malloc_fields)
  moreover have "sqes ?st1 = sqes st" "cqes ?st1 = cqes st" "cq ?st1 = cq st" "sq ?st1 = sq st"
    by (simp_all add: malloc_fields)
  moreover have "0 < n \<longrightarrow> bytes_refcnt ?bo = 1 \<and> bytes_heap st (snd ?m) = None"
    using assms by (simp add: malloc_unused)
  ultimately show thesis by (rule that)
qed

lemma resize_props:
  assumes "bytes_heap st v = Some bo" "0 \<le> newsize" "int (length (ob_sval bo)) \<noteq> newsize"
    "bytes_refcnt bo = 1 \<or> ob_sval bo = []"
    "bytes_heap st (next_addr st) = None"
  obtains st1 v' bo' where "PyBytes_Resize st v newsize = (st1, Some v')"
    "bytes_heap st1 v' = Some bo'" "int (length (ob_sval bo')) = newsize"
    "take (length (ob_sval bo)) (ob_sval bo') = take (length (ob_sval bo')) (ob_sval bo)"
    "sqes st1 = sqes st" "cqes st1 = cqes st" "cq st1 = cq st"
    "ob_sval bo \<noteq> [] \<and> 0 < newsize \<longrightarrow> v' = v"
    "ob_sval bo \<noteq> [] \<and> newsize = 0 \<longrightarrow> v' \<noteq> v \<and> bytes_heap st1 v = None \<and> empty_bytes st1 = Some v'"
proof (cases "ob_sval bo = []")
  case True
  with assms(2,3) have pos: "0 < nat newsize" by simp
  from assms(5) obtain st1 b' bo' where 1: "bytes_alloc st (nat newsize) = (st1, b')"
    "bytes_heap st1 b' = Some bo'" "ob_sval bo' = map (uninit st) [0..<nat newsize]"
    "\<forall>a. a \<noteq> b' \<longrightarrow> bytes_heap st1 a = bytes_heap st a"
    "sqes st1 = sqes st" "cqes st1 = cqes st" "cq st1 = cq st" "sq st1 = sq st"
    "0 < nat newsize \<longrightarrow> bytes_refcnt bo' = 1 \<and> bytes_heap st b' = None"
    by (rule bytes_alloc_props [of st "nat newsize"])
  from 1(9) pos assms(1) have ne: "b' \<noteq> v" by auto
  show thesis
  proof (rule that)
    show "PyBytes_Resize st v newsize = (bytes_decref st1 v, Some b')"
      using assms(1-3) True 1(1) by (simp add: PyBytes_Resize_def)
    show "bytes_heap (bytes_decref st1 v) b' = Some bo'"
      using ne 1(2) by (simp add: bytes_decref_other)
    show "int (length (ob_sval bo')) = newsize" using 1(3) assms(2) by simp
    show "take (length (ob_sval bo)) (ob_sval bo') = take (length (ob_sval bo')) (ob_sval bo)"
      using True by simp
    show "sqes (bytes_decref st1 v) = sqes st" "cqes (bytes_decref st1 v) = cqes st"
      "cq (bytes_decref st1 v) = cq st"
      using 1(5-7) by (simp_all add: bytes_decref_fields)
    show "ob_sval bo \<noteq> [] \<and> 0 < newsize \<longrightarrow> b' = v" using True by simp
    show "ob_sval bo \<noteq> [] \<and> newsize = 0 \<longrightarrow> b' \<noteq> v \<and> bytes_heap (bytes_decref st1 v) v = None
        \<and> empty_bytes (bytes_decref st1 v) = Some b'" using True by simp
  qed
next
  case False
  with assms(4) have rc: "bytes_refcnt bo = 1" by simp
  show thesis
  proof (cases "newsize = 0")
    case True
    from assms(5) obtain st1 b' bo' where 1: "bytes_new_empty st = (st1, b')"
      "bytes_heap st1 b' = Some bo'" "ob_sval bo' = []"
      "\<forall>a. a \<noteq> b' \<longrightarrow> bytes_heap st1 a = bytes_heap st a"
      "sqes st1 = sqes st" "cqes st1 = cqes st" "cq st1 = cq st" "empty_bytes st1 = Some b'"
      "\<forall>bo. bytes_heap st b' = Some bo \<longrightarrow> ob_sval bo = []"
      by (rule bytes_new_empty_props)
    from 1(9) assms(1) False have ne: "b' \<noteq> v" by auto
    then have v1: "bytes_heap st1 v = Some bo" using 1(4) assms(1) by simp
    show thesis
    proof (rule that)
      show "PyBytes_Resize st v newsize = (bytes_decref st1 v, Some b')"
        using assms(1) False True rc 1(1) by (simp add: PyBytes_Resize_def)
      show "bytes_heap (bytes_decref st1 v) b' = Some bo'"
        using ne 1(2) by (simp add: bytes_decref_other)
      show "int (length (ob_sval bo')) = newsize" using 1(3) True by simp
      show "take (length (ob_sval bo)) (ob_sval bo') = take (length (ob_sval bo')) (ob_sval bo)"
        using 1(3) by simp
      show "sqes (bytes_decref st1 v) = sqes st" "cqes (bytes_decref st1 v) = cqes st"
        "cq (bytes_decref st1 v) = cq st"
        using 1(5-7) by (simp_all add: bytes_decref_fields)
      show "ob_sval bo \<noteq> [] \<and> 0 < newsize \<longrightarrow> b' = v" using True by simp
      show "ob_sval bo \<noteq> [] \<and> newsize = 0 \<longrightarrow> b' \<noteq> v \<and> bytes_heap (bytes_decref st1 v) v = None
        \<and> empty_bytes (bytes_decref st1 v) = Some b'"
        using ne v1 rc 1(8) by (simp add: bytes_decref_last bytes_decref_fields)
    qed
  next
    case pos: False
    let ?n = "nat newsize"
    let ?bs' = "take ?n (ob_sval bo) @ map (uninit st) [length (ob_sval bo)..<?n]"
    let ?st1 = "st\<lparr>bytes_heap := (bytes_heap st)(v \<mapsto> bo\<lparr>ob_sval := ?bs'\<rparr>)\<rparr>"
    show thesis
    proof (rule that)
      show "PyBytes_Resize st v newsize = (?st1, Some v)"
        using assms(1-3) False pos rc by (simp add: PyBytes_Resize_def Let_def)
      show "bytes_heap ?st1 v = Some (bo\<lparr>ob_sval := ?bs'\<rparr>)" by simp
      show "int (length (ob_sval (bo\<lparr>ob_sval := ?bs'\<rparr>))) = newsize"
        using assms(2) by (auto simp: min_def)
      show "take (length (ob_sval bo)) (ob_sval (bo\<lparr>ob_sval := ?bs'\<rparr>))
          = take (length (ob_sval (bo\<lparr>ob_sval := ?bs'\<rparr>))) (ob_sval bo)"
        using assms(2) by (auto simp: min_def)
      show "sqes ?st1 = sqes st" "cqes ?st1 = cqes st" "cq ?st1 = cq st" by simp_all
      show "ob_sval bo \<noteq> [] \<and> 0 < newsize \<longrightarrow> v = v" by simp
      show "ob_sval bo \<noteq> [] \<and> newsize = 0 \<longrightarrow> v \<noteq> v \<and> bytes_heap ?st1 v = None
        \<and> empty_bytes ?st1 = Some v" using pos by simp
    qed
  qed
qed

subsection \<open>The result decoder\<close>

lemma wrapper_ofD:
  assumes "wrapper_of st self s so e"
  obtains co p where "cqes st self = Some co" "sqeobj co = Some s" "sqes st s = Some so"
    "cqe co = Some p" "cq st p = Some e"
  using assms by (auto simp: wrapper_of_def split: option.splits)

lemma owned_bufferD:
  assumes "owned_buffer st so b bs"
  obtains bo where "allocated_buffer so = Some b" "bytes_heap st b = Some bo" "ob_sval bo = bs"
  using assms by (auto simp: owned_buffer_def split: option.splits)

lemma getresult_negative:
  assumes "wrapper_of st self s so e" "res e <s 0"
  shows "Cqe_getresult st self = (st, Inl (OSError (sint (- res e))))"
proof -
  from assms(1) obtain co p where "cqes st self = Some co" "sqeobj co = Some s"
    "sqes st s = Some so" "cqe co = Some p" "cq st p = Some e" by (rule wrapper_ofD)
  with assms(2) show ?thesis by (simp add: Cqe_getresult_def)
qed

lemma getresult_nop:
  assumes "wrapper_of st self s so e" "\<not> res e <s 0" "operation so = IORING_OP_NOP"
  shows "Cqe_getresult st self = (st, Inr PyNone)"
proof -
  from assms(1) obtain co p where "cqes st self = Some co" "sqeobj co = Some s"
    "sqes st s = Some so" "cqe co = Some p" "cq st p = Some e" by (rule wrapper_ofD)
  with assms(2,3) show ?thesis by (simp add: Cqe_getresult_def)
qed

lemma getresult_other:
  assumes "wrapper_of st self s so e" "\<not> res e <s 0" "operation so \<noteq> IORING_OP_NOP"
    "operation so \<noteq> IORING_OP_READ" "operation so \<noteq> IORING_OP_RECV"
  shows "Cqe_getresult st self = (st, Inr (PyLong (sint (res e))))"
proof -
  from assms(1) obtain co p where "cqes st self = Some co" "sqeobj co = Some s"
    "sqes st s = Some so" "cqe co = Some p" "cq st p = Some e" by (rule wrapper_ofD)
  with assms(2-) show ?thesis by (simp add: Cqe_getresult_def)
qed

lemma bytes_incref_fields:
  "sqes (bytes_incref st b) = sqes st"
  "cqes (bytes_incref st b) = cqes st"
  "cq (bytes_incref st b) = cq st"
  "empty_bytes (bytes_incref st b) = empty_bytes st"
  by (simp_all add: bytes_incref_def split: option.splits)

lemma bytes_incref_other:
  "a \<noteq> b \<Longrightarrow> bytes_heap (bytes_incref st b) a = bytes_heap st a"
  by (simp add: bytes_incref_def split: option.splits)

lemma bytes_incref_contents:
  "map_option ob_sval (bytes_heap (bytes_incref st b) a) = map_option ob_sval (bytes_heap st a)"
  by (simp add: bytes_incref_def split: option.splits)

lemma getresult_read_sized:
  assumes "wrapper_of st self s so e" "\<not> res e <s 0"
    "operation so = IORING_OP_READ \<or> operation so = IORING_OP_RECV"
    "owned_buffer st so b bs" "int (length bs) = sint (res e)"
  shows "Cqe_getresult st self = (bytes_incref st b, Inr (PyBytes b))"
    and "wrapper_of (bytes_incref st b) self s so e"
    and "owned_buffer (bytes_incref st b) so b bs"
proof -
  from assms(1) obtain co p where w: "cqes st self = Some co" "sqeobj co = Some s"
    "sqes st s = Some so" "cqe co = Some p" "cq st p = Some e" by (rule wrapper_ofD)
  from assms(4) obtain bo where o: "allocated_buffer so = Some b" "bytes_heap st b = Some bo"
    "ob_sval bo = bs" by (rule owned_bufferD)
  have nop: "operation so \<noteq> IORING_OP_NOP"
    using assms(3) by (auto simp: opcode_defs)
  show "Cqe_getresult st self = (bytes_incref st b, Inr (PyBytes b))"
    using w o nop assms(2,3,5) by (simp add: Cqe_getresult_def)
  show "wrapper_of (bytes_incref st b) self s so e"
    using w o by (simp add: wrapper_of_def bytes_incref_def)
  show "owned_buffer (bytes_incref st b) so b bs"
    using w o by (simp add: owned_buffer_def bytes_incref_def)
qed

lemma getresult_read_first:
  assumes "wrapper_of st self s so e" "\<not> res e <s 0"
    "operation so = IORING_OP_READ \<or> operation so = IORING_OP_RECV"
    "owned_buffer st so b bs"
    "sole_owner st b \<or> bs = []"
    "bytes_heap st (next_addr st) = None"
  shows "\<exists>st' b' so' bs'. Cqe_getresult st self = (st', Inr (PyBytes b'))
     \<and> wrapper_of st' self s so' e \<and> operation so' = operation so
     \<and> owned_buffer st' so' b' bs' \<and> int (length bs') = sint (res e)
     \<and> take (length bs) bs' = take (length bs') bs
     \<and> (bs \<noteq> [] \<and> 0 < sint (res e) \<longrightarrow> b' = b)
     \<and> (bs \<noteq> [] \<and> sint (res e) = 0
          \<longrightarrow> b' \<noteq> b \<and> bytes_heap st' b = None \<and> empty_bytes st' = Some b')"
proof (cases "int (length bs) = sint (res e)")
  case True
  from getresult_read_sized [OF assms(1-4) True] True show ?thesis
    by (intro exI [of _ "bytes_incref st b"] exI [of _ b] exI [of _ so] exI [of _ bs]) auto
next
  case False
  from assms(1) obtain co p where w: "cqes st self = Some co" "sqeobj co = Some s"
    "sqes st s = Some so" "cqe co = Some p" "cq st p = Some e" by (rule wrapper_ofD)
  from assms(4) obtain bo where o: "allocated_buffer so = Some b" "bytes_heap st b = Some bo"
    "ob_sval bo = bs" by (rule owned_bufferD)
  from o assms(5) have rc: "bytes_refcnt bo = 1 \<or> ob_sval bo = []"
    by (auto simp: sole_owner_def)
  have nop: "operation so \<noteq> IORING_OP_NOP"
    using assms(3) by (auto simp: opcode_defs)
  have nonneg: "0 \<le> sint (res e)"
    using assms(2) by (simp add: word_sless_alt)
  from False o have ne: "int (length (ob_sval bo)) \<noteq> sint (res e)" by simp
  from o(2) nonneg ne rc assms(6)
  obtain st1 v' bo' where r: "PyBytes_Resize st b (sint (res e)) = (st1, Some v')"
    "bytes_heap st1 v' = Some bo'" "int (length (ob_sval bo')) = sint (res e)"
    "take (length (ob_sval bo)) (ob_sval bo') = take (length (ob_sval bo')) (ob_sval bo)"
    "sqes st1 = sqes st" "cqes st1 = cqes st" "cq st1 = cq st"
    "ob_sval bo \<noteq> [] \<and> 0 < sint (res e) \<longrightarrow> v' = b"
    "ob_sval bo \<noteq> [] \<and> sint (res e) = 0
       \<longrightarrow> v' \<noteq> b \<and> bytes_heap st1 b = None \<and> empty_bytes st1 = Some v'"
    by (rule resize_props)
  let ?so' = "so\<lparr>allocated_buffer := Some v'\<rparr>"
  let ?st2 = "st1\<lparr>sqes := (sqes st1)(s \<mapsto> ?so')\<rparr>"
  let ?st' = "bytes_incref ?st2 v'"
  have g: "Cqe_getresult st self = (?st', Inr (PyBytes v'))"
    using w o nop assms(2,3) ne r(1) by (simp add: Cqe_getresult_def)
  have w': "wrapper_of ?st' self s ?so' e"
    using w r(5-7) by (simp add: wrapper_of_def bytes_incref_fields)
  have "map_option ob_sval (bytes_heap ?st' v') = Some (ob_sval bo')"
    using r(2) by (simp add: bytes_incref_contents)
  then have o': "owned_buffer ?st' ?so' v' (ob_sval bo')"
    by (auto simp: owned_buffer_def split: option.splits)
  have e0: "bs \<noteq> [] \<and> sint (res e) = 0
      \<longrightarrow> v' \<noteq> b \<and> bytes_heap ?st' b = None \<and> empty_bytes ?st' = Some v'"
    using r(9) o(3) by (auto simp: bytes_incref_other bytes_incref_fields)
  show ?thesis
    apply (intro exI [of _ ?st'] exI [of _ v'] exI [of _ ?so'] exI [of _ "ob_sval bo'"])
    apply (intro conjI)
           apply (rule g)
          apply (rule w')
         apply simp
        apply (rule o')
       apply (rule r(3))
    using r(4) o(3) apply simp
    using r(8) o(3) apply simp
    apply (rule e0)
    done
qed



text \<open>Claim C4. Whatever the opcode of the request, a completion whose raw result is
  negative decodes to \<^verbatim>\<open>OSError\<close> with the negated result as its error number, and the
  store is left as it was: the test comes before the \<^verbatim>\<open>switch\<close> on the opcode. The
  negation is that of a C \<^verbatim>\<open>int\<close>; it is the integer negation for every result but the
  least \<^verbatim>\<open>int\<close>.\<close>

theorem negative_result_is_OSError:
  assumes "wrapper_of st self s so e" and "res e <s 0"
  shows "Cqe_getresult st self = (st, Inl (OSError (sint (- res e))))
     \<and> (sint (res e) \<noteq> - (2 ^ 31) \<longrightarrow> sint (- res e) = - sint (res e))"
  using getresult_negative [OF assms] sint_neg_32 [of "res e"] by simp

theorem negative_result_is_OSError_witness:
  "snd (Cqe_getresult (completed_read (- 2)) 2) = Inl (OSError 2)"
proof -
  have w: "wrapper_of (completed_read (- 2)) 2 0 completed_read_sqe \<lparr>cqe_user_data = 0, res = - 2\<rparr>"
    by code_simp
  have n: "res \<lparr>cqe_user_data = 0, res = - 2\<rparr> <s 0"
    by (simp add: word_sless_alt)
  from negative_result_is_OSError [OF w n] show ?thesis by simp
qed

text \<open>What \<^verbatim>\<open>prep_read\<close> and \<^verbatim>\<open>prep_recv\<close> leave behind for the decoder: the opcode, and
  an owned buffer of the requested length; the request holds the only reference to
  it, unless the length is 0 and the buffer is the shared empty object.\<close>

lemma reinit_keeps:
  assumes "sqes st self = Some so"
  shows "\<exists>so1. sqes (Sqe_reinit_buffer st self) self = Some so1 \<and> sqe so1 = sqe so
     \<and> uninit (Sqe_reinit_buffer st self) = uninit st"
  using assms
  by (auto simp: Sqe_reinit_buffer_def release_user_buffer_def release_allocated_buffer_def
      bytes_decref_fields split: option.splits if_splits)

lemma bytes_alloc_result:
  "\<exists>st1 b bo. bytes_alloc st n = (st1, b) \<and> bytes_heap st1 b = Some bo
     \<and> ob_sval bo = map (uninit st) [0..<n] \<and> (0 < n \<longrightarrow> bytes_refcnt bo = 1)
     \<and> sqes st1 = sqes st \<and> sq st1 = sq st"
  by (auto simp: bytes_alloc_def bytes_new_empty_def bytes_create_empty_def bytes_incref_def
      malloc_fields case_prod_unfold Let_def split: option.splits)

lemma attach_then_prep:
  assumes "sqes st1 self = Some so1" "sqe so1 = Some p" "\<And>q. opcode (f q) = opc"
  shows "\<exists>st' so' b. prep_slot (fst (attach_buffer st1 self n)) self f = (st', Inr PyNone)
     \<and> sqes st' self = Some so' \<and> operation so' = opc
     \<and> owned_buffer st' so' b (map (uninit st1) [0..<n])
     \<and> (sole_owner st' b \<or> n = 0)"
proof -
  from bytes_alloc_result [of st1 n] obtain st2 b bo where a: "bytes_alloc st1 n = (st2, b)"
    "bytes_heap st2 b = Some bo" "ob_sval bo = map (uninit st1) [0..<n]"
    "0 < n \<longrightarrow> bytes_refcnt bo = 1" "sqes st2 = sqes st1" "sq st2 = sq st1"
    by blast
  let ?st3 = "st2\<lparr>sqes := (sqes st2)(self \<mapsto> so1\<lparr>allocated_buffer := Some b\<rparr>)\<rparr>"
  have at: "attach_buffer st1 self n = (?st3, b)"
    using a(1,5) assms(1) by (simp add: attach_buffer_def)
  let ?so' = "so1\<lparr>allocated_buffer := Some b, operation := opcode (f (sq ?st3 p))\<rparr>"
  let ?st' = "?st3\<lparr>sq := (sq ?st3)(p := f (sq ?st3 p)), sqes := (sqes ?st3)(self \<mapsto> ?so')\<rparr>"
  have "prep_slot (fst (attach_buffer st1 self n)) self f = (?st', Inr PyNone)"
    using at assms(2) by (simp add: prep_slot_def)
  moreover have "sqes ?st' self = Some ?so'" by simp
  moreover have "operation ?so' = opc" using assms(3) by simp
  moreover have "owned_buffer ?st' ?so' b (map (uninit st1) [0..<n])"
    using a(2,3) by (simp add: owned_buffer_def)
  moreover have "sole_owner ?st' b \<or> n = 0"
    using a(2,4) by (auto simp: sole_owner_def)
  ultimately show ?thesis by blast
qed

lemma prep_read_attaches:
  assumes "sqes st self = Some so" "sqe so = Some p"
    and "0 \<le> n" "n < 2 ^ 31" "- (2 ^ 31) \<le> f" "f < 2 ^ 31"
  shows "\<exists>st' so' b. Sqe_prep_read st self [PyLong f, PyLong n] = (st', Inr PyNone)
     \<and> sqes st' self = Some so' \<and> operation so' = IORING_OP_READ
     \<and> owned_buffer st' so' b (map (uninit st) [0..<nat n])
     \<and> (sole_owner st' b \<or> n = 0)"
proof -
  let ?st1 = "Sqe_reinit_buffer st self"
  let ?b = "snd (attach_buffer ?st1 self (nat n))"
  from reinit_keeps [OF assms(1)] assms(2) obtain so1 where 1: "sqes ?st1 self = Some so1"
    "sqe so1 = Some p" "uninit ?st1 = uninit st"
    by auto
  have p: "parse_ii_i [PyLong f, PyLong n] (garbage st) = Inr (f, n, garbage st)"
    using assms(3-6) by (simp add: parse_ii_i_def arg_count_ok_def conv_opt_def)
  have o: "opcode (io_uring_prep_read q f ?b n (garbage st)) = IORING_OP_READ" for q
    by (simp add: io_uring_prep_read_def io_uring_prep_rw_def)
  have "Sqe_prep_read st self [PyLong f, PyLong n]
      = prep_slot (fst (attach_buffer ?st1 self (nat n))) self
          (\<lambda>q. io_uring_prep_read q f ?b n (garbage st))"
    using p assms(3) by (simp add: Sqe_prep_read_def Let_def case_prod_unfold)
  with attach_then_prep [where f = "\<lambda>q. io_uring_prep_read q f ?b n (garbage st)",
      OF 1(1,2) o, of "nat n"] 1(3) assms(3)
  show ?thesis by auto
qed

lemma prep_recv_attaches:
  assumes "sqes st self = Some so" "sqe so = Some p"
    and "0 \<le> n" "n < 2 ^ 31" "- (2 ^ 31) \<le> f" "f < 2 ^ 31"
  shows "\<exists>st' so' b. Sqe_prep_recv st self [PyLong f, PyLong n] = (st', Inr PyNone)
     \<and> sqes st' self = Some so' \<and> operation so' = IORING_OP_RECV
     \<and> owned_buffer st' so' b (map (uninit st) [0..<nat n])
     \<and> (sole_owner st' b \<or> n = 0)"
proof -
  let ?st1 = "Sqe_reinit_buffer st self"
  let ?b = "snd (attach_buffer ?st1 self (nat n))"
  from reinit_keeps [OF assms(1)] assms(2) obtain so1 where 1: "sqes ?st1 self = Some so1"
    "sqe so1 = Some p" "uninit ?st1 = uninit st"
    by auto
  have p: "parse_ii_i [PyLong f, PyLong n] 0 = Inr (f, n, 0)"
    using assms(3-6) by (simp add: parse_ii_i_def arg_count_ok_def conv_opt_def)
  have o: "opcode (io_uring_prep_recv q f ?b n 0) = IORING_OP_RECV" for q
    by (simp add: io_uring_prep_recv_def io_uring_prep_rw_def)
  have "Sqe_prep_recv st self [PyLong f, PyLong n]
      = prep_slot (fst (attach_buffer ?st1 self (nat n))) self
          (\<lambda>q. io_uring_prep_recv q f ?b n 0)"
    using p assms(3) by (simp add: Sqe_prep_recv_def Let_def case_prod_unfold)
  with attach_then_prep [where f = "\<lambda>q. io_uring_prep_recv q f ?b n 0",
      OF 1(1,2) o, of "nat n"] 1(3) assms(3)
  show ?thesis by auto
qed

text \<open>Claim C5. For a completion with a non-negative raw result \<open>r\<close>: a no-op decodes
  to \<^verbatim>\<open>None\<close>; a read or recv whose request owns its buffer (of any length \<open>L\<close>, with
  the request's reference the only one or, for \<open>L = 0\<close>, the shared empty object, as
  the prepare call leaves it) decodes to the request's buffer, resized to exactly \<open>r\<close>
  bytes, not \<open>L\<close>, and keeping the bytes it had; every other opcode decodes to the
  integer \<open>r\<close>.\<close>

theorem decoded_result_by_opcode:
  assumes "wrapper_of st self s so e" and "\<not> res e <s 0"
  shows "(operation so = IORING_OP_NOP \<longrightarrow> Cqe_getresult st self = (st, Inr PyNone))
     \<and> (operation so \<noteq> IORING_OP_NOP \<and> operation so \<noteq> IORING_OP_READ \<and> operation so \<noteq> IORING_OP_RECV
          \<longrightarrow> Cqe_getresult st self = (st, Inr (PyLong (sint (res e)))))
     \<and> ((operation so = IORING_OP_READ \<or> operation so = IORING_OP_RECV)
          \<and> owned_buffer st so b bs \<and> (sole_owner st b \<or> bs = [])
          \<and> bytes_heap st (next_addr st) = None
          \<longrightarrow> (\<exists>st' b' so' bs'. Cqe_getresult st self = (st', Inr (PyBytes b'))
                \<and> sqes st' s = Some so' \<and> owned_buffer st' so' b' bs'
                \<and> int (length bs') = sint (res e)
                \<and> take (length bs) bs' = take (length bs') bs))"
proof (intro conjI impI)
  assume "operation so = IORING_OP_NOP"
  with assms show "Cqe_getresult st self = (st, Inr PyNone)" by (rule getresult_nop)
next
  assume "operation so \<noteq> IORING_OP_NOP \<and> operation so \<noteq> IORING_OP_READ \<and> operation so \<noteq> IORING_OP_RECV"
  with assms show "Cqe_getresult st self = (st, Inr (PyLong (sint (res e))))"
    by (simp add: getresult_other)
next
  assume a: "(operation so = IORING_OP_READ \<or> operation so = IORING_OP_RECV)
    \<and> owned_buffer st so b bs \<and> (sole_owner st b \<or> bs = [])
    \<and> bytes_heap st (next_addr st) = None"
  then have 1: "operation so = IORING_OP_READ \<or> operation so = IORING_OP_RECV"
    and 2: "owned_buffer st so b bs" and 3: "sole_owner st b \<or> bs = []"
    and 4: "bytes_heap st (next_addr st) = None"
    by simp_all
  from getresult_read_first [OF assms 1 2 3 4]
  obtain st' b' so' bs' where r: "Cqe_getresult st self = (st', Inr (PyBytes b'))"
    "wrapper_of st' self s so' e" "owned_buffer st' so' b' bs'" "int (length bs') = sint (res e)"
    "take (length bs) bs' = take (length bs') bs"
    by blast
  from r(2) have "sqes st' s = Some so'" by (rule wrapper_ofD)
  with r show "\<exists>st' b' so' bs'. Cqe_getresult st self = (st', Inr (PyBytes b'))
                \<and> sqes st' s = Some so' \<and> owned_buffer st' so' b' bs'
                \<and> int (length bs') = sint (res e)
                \<and> take (length bs) bs' = take (length bs') bs"
    by blast
qed

theorem decoded_result_by_opcode_witness:
  "\<exists>st' b' so' bs'. Cqe_getresult (completed_read 2) 2 = (st', Inr (PyBytes b'))
     \<and> sqes st' 0 = Some so' \<and> owned_buffer st' so' b' bs' \<and> length bs' = 2"
proof -
  have w: "wrapper_of (completed_read 2) 2 0 completed_read_sqe \<lparr>cqe_user_data = 0, res = 2\<rparr>"
    by code_simp
  have n: "\<not> res \<lparr>cqe_user_data = 0, res = 2\<rparr> <s 0"
    by (simp add: word_sless_alt)
  have o: "operation completed_read_sqe = IORING_OP_READ"
    "owned_buffer (completed_read 2) completed_read_sqe 1 [0, 0, 0, 0]"
    "sole_owner (completed_read 2) 1"
    "bytes_heap (completed_read 2) (next_addr (completed_read 2)) = None"
    by code_simp+
  from decoded_result_by_opcode [OF w n, of 1 "[0, 0, 0, 0]"] o
  have "\<exists>st' b' so' bs'. Cqe_getresult (completed_read 2) 2 = (st', Inr (PyBytes b'))
     \<and> sqes st' 0 = Some so' \<and> owned_buffer st' so' b' bs' \<and> length bs' = 2
     \<and> take (length [0, 0, 0, 0 :: byte]) bs' = take (length bs') [0, 0, 0, 0]"
    by simp
  then show ?thesis by blast
qed




subsection \<open>Acknowledgment\<close>

lemma cqe_seen_again:
  assumes "IoUring_cqe_seen st [PyCqe c] = (st', Inr r)"
  shows "IoUring_cqe_seen st' [PyCqe c] = (st', Inr PyNone)"
proof (cases "cqes st c")
  case None
  with assms show ?thesis by simp
next
  case (Some co)
  show ?thesis
  proof (cases "seen co")
    case True
    with Some assms show ?thesis by simp
  next
    case False
    with Some assms obtain s st2 where s: "sqeobj co = Some s"
      and d: "sqe_decref (st\<lparr>cq_head := (case cqe co of None \<Rightarrow> cq_head st | Some p \<Rightarrow> cq_head st + 1),
                           cqes := (cqes st)(c \<mapsto> co\<lparr>seen := True\<rparr>)\<rparr>) s = Some st'"
      by (auto simp: Let_def split: option.splits)
    from d have "cqes st' c = Some (co\<lparr>seen := True\<rparr>)"
      by (auto simp: sqe_decref_def Sqe_dealloc_def Sqe_reinit_buffer_def release_user_buffer_def
          release_allocated_buffer_def bytes_decref_def PyObject_Free_def Let_def
          split: option.splits if_splits)
    then show ?thesis by simp
  qed
qed

lemma cqe_seen_first:
  assumes "cqes st c = Some co" "\<not> seen co" "cqe co = Some p" "sqeobj co = Some s"
    "sqes st s = Some so" "1 < sqe_refcnt so"
  shows "IoUring_cqe_seen st [PyCqe c] =
     (st\<lparr>cq_head := cq_head st + 1, cqes := (cqes st)(c \<mapsto> co\<lparr>seen := True\<rparr>),
         sqes := (sqes st)(s \<mapsto> so\<lparr>sqe_refcnt := sqe_refcnt so - 1\<rparr>)\<rparr>, Inr PyNone)"
  using assms by (simp add: sqe_decref_def Let_def)

text \<open>Claim C2. Acknowledging a completion twice: whenever \<^verbatim>\<open>cqe_seen\<close> returns, a second
  call on the same wrapper returns \<^verbatim>\<open>None\<close> and leaves the whole store as it is, so
  neither the completion slot nor the request's reference is released again. The first
  call on an unacknowledged wrapper hands back exactly one completion slot, sets the flag
  and releases exactly one reference of the request (the one taken at submission; the
  wrapper's own reference keeps the request alive).\<close>

theorem acknowledge_is_idempotent:
  "(\<forall>st' r. IoUring_cqe_seen st [PyCqe c] = (st', Inr r)
        \<longrightarrow> IoUring_cqe_seen st' [PyCqe c] = (st', Inr PyNone))
   \<and> (\<forall>co p s so. cqes st c = Some co \<and> \<not> seen co \<and> cqe co = Some p \<and> sqeobj co = Some s
          \<and> sqes st s = Some so \<and> 1 < sqe_refcnt so
        \<longrightarrow> IoUring_cqe_seen st [PyCqe c] =
             (st\<lparr>cq_head := cq_head st + 1, cqes := (cqes st)(c \<mapsto> co\<lparr>seen := True\<rparr>),
                 sqes := (sqes st)(s \<mapsto> so\<lparr>sqe_refcnt := sqe_refcnt so - 1\<rparr>)\<rparr>, Inr PyNone))"
  using cqe_seen_again [of st c] cqe_seen_first [of st c] by blast

theorem acknowledge_is_idempotent_witness:
  "\<exists>st1. IoUring_cqe_seen (completed_read 0) [PyCqe 2] = (st1, Inr PyNone)
     \<and> IoUring_cqe_seen st1 [PyCqe 2] = (st1, Inr PyNone)
     \<and> cq_head st1 = cq_head (completed_read 0) + 1
     \<and> map_option sqe_refcnt (sqes st1 0) = Some 2
     \<and> map_option seen (cqes st1 2) = Some True"
proof -
  let ?st = "completed_read 0"
  let ?co = "\<lparr>cqe_refcnt = 1, cqe = Some 0, sqeobj = Some 0, seen = False\<rparr>"
  have h: "cqes ?st 2 = Some ?co \<and> \<not> seen ?co \<and> cqe ?co = Some 0 \<and> sqeobj ?co = Some 0
      \<and> sqes ?st 0 = Some completed_read_sqe \<and> 1 < sqe_refcnt completed_read_sqe"
    by code_simp
  let ?st1 = "?st\<lparr>cq_head := cq_head ?st + 1, cqes := (cqes ?st)(2 \<mapsto> ?co\<lparr>seen := True\<rparr>),
       sqes := (sqes ?st)(0 \<mapsto> completed_read_sqe\<lparr>sqe_refcnt := sqe_refcnt completed_read_sqe - 1\<rparr>)\<rparr>"
  from acknowledge_is_idempotent [of ?st 2] h
  have 1: "IoUring_cqe_seen ?st [PyCqe 2] = (?st1, Inr PyNone)" by blast
  with acknowledge_is_idempotent [of ?st 2]
  have 2: "IoUring_cqe_seen ?st1 [PyCqe 2] = (?st1, Inr PyNone)" by blast
  have 3: "sqe_refcnt completed_read_sqe = 3" by code_simp
  show ?thesis
    by (rule exI [of _ ?st1], intro conjI, rule 1, rule 2) (simp_all add: 3)
qed

subsection \<open>Submission\<close>

lemma submit_returns_None:
  assumes "IoUring_submit st ret = (st', Inr r)"
  shows "r = PyNone"
  using assms by (auto simp: IoUring_submit_def split: option.splits if_splits)

text \<open>Claim C3. \<^verbatim>\<open>submit\<close> is documented as \<^verbatim>\<open>submit() -> int\<close>, returning the number of
  entries submitted. With two requests pending and the kernel accepting both, the code
  tags each slot with its request's own address, pins each request (the list's reference
  goes, the pin stays) and empties the pending list, and then returns \<^verbatim>\<open>None\<close>, not 2.\<close>

theorem submit_returns_no_count:
  "snd (IoUring_submit two_pending 2) = Inr PyNone
   \<and> snd (IoUring_submit two_pending 2) \<noteq> Inr (PyLong 2)
   \<and> user_data (sq (fst (IoUring_submit two_pending 2)) 10) = 0
   \<and> user_data (sq (fst (IoUring_submit two_pending 2)) 11) = 1
   \<and> map_option sqe_refcnt (sqes two_pending 0) = Some 2
   \<and> map_option sqe_refcnt (sqes (fst (IoUring_submit two_pending 2)) 0) = Some 2
   \<and> map_option sqe_refcnt (sqes (fst (IoUring_submit two_pending 2)) 1) = Some 2
   \<and> wait_submit two_pending = [0, 1]
   \<and> wait_submit (fst (IoUring_submit two_pending 2)) = []"
  by code_simp

subsection \<open>The timeout of the bulk wait\<close>

text \<open>Claim C6, as stated, fails: \<^verbatim>\<open>wait_cqes(1, 0.0)\<close> does not hand the native call a
  zero timeout. It hands it \<^verbatim>\<open>NULL\<close>, exactly as \<^verbatim>\<open>wait_cqes(1)\<close> does; a native call that
  tells the two apart answers as for no timeout.\<close>

theorem zero_timeout_counterexample:
  "wait_cqes_call [PyLong 1, PyFloat 0] \<noteq> Inr (1, Some \<lparr>tv_sec = 0, tv_nsec = 0\<rparr>)
   \<and> wait_cqes_call [PyLong 1, PyFloat 0] = wait_cqes_call [PyLong 1]
   \<and> snd (IoUring_wait_cqes probe_timeout init_state [PyLong 1, PyFloat 0]) = Inl (OSError 4)"
  by (simp add: wait_cqes_call_def parse_I_d_def arg_count_ok_def conv_opt_def wait_cqes_ts_def
      IoUring_wait_cqes_def wait_cqes_finish_def probe_timeout_def)

text \<open>Claim C6, amended. The value of the timeout is the discriminator: the native
  call gets a timeout exactly when the argument is present and not 0; a timeout of 0 and
  an absent timeout are the same call.\<close>

theorem zero_timeout_is_no_timeout:
  "wait_cqes_call [PyLong n] = Inr (nat (n mod 2 ^ 32), None)
   \<and> wait_cqes_call [PyLong n, PyFloat t]
       = Inr (nat (n mod 2 ^ 32), if t = 0 then None else Some (to_timespec t))
   \<and> IoUring_wait_cqes k st [PyLong n, PyFloat 0] = IoUring_wait_cqes k st [PyLong n]"
  by (simp add: wait_cqes_call_def parse_I_d_def arg_count_ok_def conv_opt_def wait_cqes_ts_def
      IoUring_wait_cqes_def)

subsection \<open>Prepare calls whose arguments are rejected\<close>

lemma prep_slot_result:
  "snd (prep_slot st self f) = Inr PyNone \<or> snd (prep_slot st self f) = Inl Undefined"
  by (simp add: prep_slot_def split: option.splits)

lemma prep_slot_not_validation:
  assumes "prep_slot st self f = (st', Inl e)"
  shows "\<not> validation_error e"
  using assms prep_slot_result [of st self f] by (auto simp: validation_error_def)

lemma reinit_released:
  assumes "sqes (Sqe_reinit_buffer st self) self = Some so"
  shows "user_buffer so = None \<and> allocated_buffer so = None"
  using assms
  by (auto simp: Sqe_reinit_buffer_def release_user_buffer_def release_allocated_buffer_def
      bytes_decref_def PyObject_Free_def split: option.splits if_splits)

lemma reinit_frame:
  "sq (Sqe_reinit_buffer st self) = sq st"
  "cq (Sqe_reinit_buffer st self) = cq st"
  "cqes (Sqe_reinit_buffer st self) = cqes st"
  "wait_submit (Sqe_reinit_buffer st self) = wait_submit st"
  "next_addr (Sqe_reinit_buffer st self) = next_addr st"
  "map_option operation (sqes (Sqe_reinit_buffer st self) a) = map_option operation (sqes st a)"
  "map_option sqe (sqes (Sqe_reinit_buffer st self) a) = map_option sqe (sqes st a)"
  "map_option cqeobj (sqes (Sqe_reinit_buffer st self) a) = map_option cqeobj (sqes st a)"
  "map_option sqe_refcnt (sqes (Sqe_reinit_buffer st self) a) = map_option sqe_refcnt (sqes st a)"
  by (auto simp: Sqe_reinit_buffer_def release_user_buffer_def release_allocated_buffer_def
      bytes_decref_def PyObject_Free_def split: option.splits if_splits)

lemma sqes_update_same:
  assumes "sqes st a = Some so"
  shows "st\<lparr>sqes := (sqes st)(a \<mapsto> so)\<rparr> = st"
proof -
  from assms have "(sqes st)(a \<mapsto> so) = sqes st" by (rule map_upd_triv)
  then show ?thesis by simp
qed

lemma parse_i_buffer_i_failed:
  assumes "parse_i_buffer_i st self args d = (st', Inl e)" "validation_error e"
    "\<And>so. sqes st self = Some so \<Longrightarrow> user_buffer so = None"
  shows "st' = st"
proof -
  have *: "st\<lparr>sqes := (sqes st)(self \<mapsto> so\<lparr>user_buffer := None\<rparr>)\<rparr> = st" if "sqes st self = Some so" for so
  proof -
    from assms(3) [OF that] have "so\<lparr>user_buffer := None\<rparr> = so" by simp
    with that show ?thesis by (simp add: sqes_update_same)
  qed
  from assms(1,2) show ?thesis
    by (auto simp: parse_i_buffer_i_def * validation_error_def split: if_splits sum.splits pyobj.splits option.splits)
qed

lemma failed_send:
  assumes "Sqe_prep_send st self args = (st', Inl e)" "validation_error e"
  shows "st' = Sqe_reinit_buffer st self"
proof -
  let ?st1 = "Sqe_reinit_buffer st self"
  obtain st2 r where p: "parse_i_buffer_i ?st1 self args 0 = (st2, r)" by force
  show ?thesis
  proof (cases r)
    case (Inl e')
    with p assms(1) have "st' = st2" "e' = e" by (simp_all add: Sqe_prep_send_def)
    with p Inl assms(2) reinit_released [of st self] show ?thesis
      by (auto dest!: parse_i_buffer_i_failed)
  next
    case (Inr v)
    with p assms show ?thesis
      by (auto simp: Sqe_prep_send_def validation_error_def split: prod.splits option.splits
          dest: prep_slot_not_validation [unfolded validation_error_def])
  qed
qed

lemma failed_write:
  assumes "Sqe_prep_write st self args = (st', Inl e)" "validation_error e"
  shows "st' = Sqe_reinit_buffer st self"
proof -
  let ?st1 = "Sqe_reinit_buffer st self"
  obtain st2 r where p: "parse_i_buffer_i ?st1 self args (garbage st) = (st2, r)" by force
  show ?thesis
  proof (cases r)
    case (Inl e')
    with p assms(1) have "st' = st2" "e' = e" by (simp_all add: Sqe_prep_write_def)
    with p Inl assms(2) reinit_released [of st self] show ?thesis
      by (auto dest!: parse_i_buffer_i_failed)
  next
    case (Inr v)
    with p assms show ?thesis
      by (auto simp: Sqe_prep_write_def validation_error_def split: prod.splits option.splits
          dest: prep_slot_not_validation [unfolded validation_error_def])
  qed
qed

lemma failed_recv:
  assumes "Sqe_prep_recv st self args = (st', Inl e)" "validation_error e"
  shows "st' = Sqe_reinit_buffer st self"
  using assms
  by (auto simp: Sqe_prep_recv_def validation_error_def Let_def
      split: sum.splits prod.splits if_splits
      dest: prep_slot_not_validation [unfolded validation_error_def])

lemma failed_read:
  assumes "Sqe_prep_read st self args = (st', Inl e)" "validation_error e"
  shows "st' = Sqe_reinit_buffer st self"
  using assms
  by (auto simp: Sqe_prep_read_def validation_error_def Let_def
      split: sum.splits prod.splits if_splits
      dest: prep_slot_not_validation [unfolded validation_error_def])

lemma failed_accept:
  assumes "Sqe_prep_accept st self args = (st', Inl e)" "validation_error e"
  shows "st' = Sqe_reinit_buffer st self"
  using assms
  by (auto simp: Sqe_prep_accept_def validation_error_def Let_def
      split: sum.splits prod.splits if_splits
      dest: prep_slot_not_validation [unfolded validation_error_def])

lemma failed_timeout:
  assumes "Sqe_prep_timeout st self args = (st', Inl e)" "validation_error e"
  shows "st' = Sqe_reinit_buffer st self"
  using assms
  by (auto simp: Sqe_prep_timeout_def validation_error_def Let_def
      split: sum.splits prod.splits if_splits
      dest: prep_slot_not_validation [unfolded validation_error_def])

lemma failed_connect:
  assumes "Sqe_prep_connect inet_pton st self args = (st', Inl e)" "validation_error e"
  shows "st' = Sqe_reinit_buffer st self"
  using assms
  by (auto simp: Sqe_prep_connect_def validation_error_def Let_def
      split: sum.splits prod.splits if_splits pyobj.splits
      dest: prep_slot_not_validation [unfolded validation_error_def])

lemma failed_close:
  assumes "Sqe_prep_close st self args = (st', Inl e)" "validation_error e"
  shows "st' = st"
  using assms
  by (auto simp: Sqe_prep_close_def validation_error_def
      split: sum.splits
      dest: prep_slot_not_validation [unfolded validation_error_def])

lemma failed_cancel:
  assumes "Sqe_prep_cancel st self args = (st', Inl e)" "validation_error e"
  shows "st' = st"
  using assms
  by (auto simp: Sqe_prep_cancel_def validation_error_def
      split: sum.splits if_splits pyobj.splits
      dest: prep_slot_not_validation [unfolded validation_error_def])

lemma failed_timeout_remove:
  assumes "Sqe_prep_timeout_remove st self args = (st', Inl e)" "validation_error e"
  shows "st' = st"
  using assms
  by (auto simp: Sqe_prep_timeout_remove_def validation_error_def
      split: sum.splits if_splits)

text \<open>Claim C7, as stated, fails: a \<^verbatim>\<open>prep_send\<close> with no arguments on a request that
  was prepared as a read raises \<^verbatim>\<open>TypeError\<close>, and the request's owned buffer is gone
  (released and freed) although nothing was prepared.\<close>

theorem failed_send_releases_buffer:
  "snd (Sqe_prep_send prepared_read 0 []) = Inl TypeError
   \<and> map_option allocated_buffer (sqes prepared_read 0) = Some (Some 1)
   \<and> map_option allocated_buffer (sqes (fst (Sqe_prep_send prepared_read 0 [])) 0) = Some None
   \<and> map_option bytes_refcnt (bytes_heap prepared_read 1) = Some 1
   \<and> bytes_heap (fst (Sqe_prep_send prepared_read 0 [])) 1 = None"
  by code_simp

text \<open>Claim C7, amended. A prepare call whose argument conversion fails reports the
  error at once and leaves the request's opcode and its native slot as they were. The
  calls that carry a buffer (send, write, recv, read, connect, accept, timeout) have by
  then released the previous buffer slot, owned buffer and borrowed view alike, because
  they call \<^verbatim>\<open>Sqe_reinit_buffer\<close> before they look at their arguments; close, cancel and
  timeout-remove leave the whole store unchanged.\<close>

theorem failed_validation_keeps_opcode_and_slot:
  assumes "validation_error e"
  shows "(Sqe_prep_send st self args = (st', Inl e) \<or> Sqe_prep_write st self args = (st', Inl e)
          \<or> Sqe_prep_recv st self args = (st', Inl e) \<or> Sqe_prep_read st self args = (st', Inl e)
          \<or> Sqe_prep_connect inet_pton st self args = (st', Inl e)
          \<or> Sqe_prep_accept st self args = (st', Inl e)
          \<or> Sqe_prep_timeout st self args = (st', Inl e)
        \<longrightarrow> st' = Sqe_reinit_buffer st self)
     \<and> (Sqe_prep_close st self args = (st', Inl e) \<or> Sqe_prep_cancel st self args = (st', Inl e)
          \<or> Sqe_prep_timeout_remove st self args = (st', Inl e)
        \<longrightarrow> st' = st)
     \<and> sq (Sqe_reinit_buffer st self) = sq st
     \<and> (\<forall>a. map_option operation (sqes (Sqe_reinit_buffer st self) a) = map_option operation (sqes st a))
     \<and> (\<forall>so. sqes (Sqe_reinit_buffer st self) self = Some so
           \<longrightarrow> user_buffer so = None \<and> allocated_buffer so = None)"
  using assms failed_send [of st self args st' e] failed_write [of st self args st' e]
    failed_recv [of st self args st' e] failed_read [of st self args st' e]
    failed_connect [of inet_pton st self args st' e] failed_accept [of st self args st' e]
    failed_timeout [of st self args st' e] failed_close [of st self args st' e]
    failed_cancel [of st self args st' e] failed_timeout_remove [of st self args st' e]
    reinit_frame(1,6) [of st self] reinit_released [of st self]
  by blast

theorem failed_validation_keeps_opcode_and_slot_witness:
  "fst (Sqe_prep_send prepared_read 0 []) = Sqe_reinit_buffer prepared_read 0
   \<and> sq (fst (Sqe_prep_send prepared_read 0 [])) = sq prepared_read
   \<and> map_option operation (sqes (fst (Sqe_prep_send prepared_read 0 [])) 0) = Some IORING_OP_READ"
proof -
  have v: "validation_error TypeError" by (simp add: validation_error_def)
  have "snd (Sqe_prep_send prepared_read 0 []) = Inl TypeError" by code_simp
  then have r: "Sqe_prep_send prepared_read 0 [] = (fst (Sqe_prep_send prepared_read 0 []), Inl TypeError)"
    by (metis prod.collapse)
  have o: "map_option operation (sqes prepared_read 0) = Some IORING_OP_READ" by code_simp
  from failed_validation_keeps_opcode_and_slot [OF v, of prepared_read 0 "[]"
      "fst (Sqe_prep_send prepared_read 0 [])"] r o
  show ?thesis by simp
qed

subsection \<open>Prepare calls that keep the previous buffer\<close>

text \<open>Claim C8. \<^verbatim>\<open>prep_nop\<close>, \<^verbatim>\<open>prep_close\<close> and \<^verbatim>\<open>prep_cancel\<close> do not call
  \<^verbatim>\<open>Sqe_reinit_buffer\<close>, as the other prepare calls do: on a request that was prepared
  as a read they succeed and the request still holds the read's buffer, with its
  reference. \<^verbatim>\<open>prep_accept\<close> on the same request releases it.\<close>

theorem nop_keeps_previous_buffer:
  "snd (Sqe_prep_nop prepared_read 0) = Inr PyNone
   \<and> map_option operation (sqes (fst (Sqe_prep_nop prepared_read 0)) 0) = Some IORING_OP_NOP
   \<and> map_option allocated_buffer (sqes (fst (Sqe_prep_nop prepared_read 0)) 0) = Some (Some 1)
   \<and> map_option bytes_refcnt (bytes_heap (fst (Sqe_prep_nop prepared_read 0)) 1) = Some 1
   \<and> snd (Sqe_prep_close prepared_read 0 [PyLong 3]) = Inr PyNone
   \<and> map_option allocated_buffer (sqes (fst (Sqe_prep_close prepared_read 0 [PyLong 3])) 0) = Some (Some 1)
   \<and> map_option bytes_refcnt (bytes_heap (fst (Sqe_prep_close prepared_read 0 [PyLong 3])) 1) = Some 1
   \<and> snd (Sqe_prep_cancel prepared_read 0 [PySqe 0, PyLong 0]) = Inr PyNone
   \<and> map_option allocated_buffer (sqes (fst (Sqe_prep_cancel prepared_read 0 [PySqe 0, PyLong 0])) 0) = Some (Some 1)
   \<and> snd (Sqe_prep_accept prepared_read 0 [PyLong 3]) = Inr PyNone
   \<and> map_option allocated_buffer (sqes (fst (Sqe_prep_accept prepared_read 0 [PyLong 3])) 0) = Some (Some 2)
   \<and> bytes_heap (fst (Sqe_prep_accept prepared_read 0 [PyLong 3])) 1 = None"
  by code_simp

subsection \<open>The target of cancel and timeout-remove\<close>

lemma timeout_remove_fails:
  "snd (Sqe_prep_timeout_remove st self args) = Inl TypeError
   \<or> snd (Sqe_prep_timeout_remove st self args) = Inl Undefined"
  by (simp add: Sqe_prep_timeout_remove_def)

text \<open>Claim C9. \<^verbatim>\<open>prep_cancel\<close> encodes the target request's address, which is the tag
  \<^verbatim>\<open>submit\<close> gives the target's slot. \<^verbatim>\<open>prep_timeout_remove\<close> with the same arguments
  never gets that far: its argument conversion is handed the wrong pointers, the call
  fails, and the slot and the opcode stay as they were.\<close>

theorem timeout_remove_never_encodes_target:
  "snd (Sqe_prep_cancel timeout_and_second 2 [PySqe 0, PyLong 0]) = Inr PyNone
   \<and> sqe_addr (sq (fst (Sqe_prep_cancel timeout_and_second 2 [PySqe 0, PyLong 0])) 11) = 0
   \<and> user_data (sq (fst (IoUring_submit timeout_and_second 2)) 10) = 0
   \<and> snd (Sqe_prep_timeout_remove timeout_and_second 2 [PySqe 0, PyLong 0]) = Inl Undefined
   \<and> opcode (sq (fst (Sqe_prep_timeout_remove timeout_and_second 2 [PySqe 0, PyLong 0])) 11)
       \<noteq> IORING_OP_TIMEOUT_REMOVE
   \<and> map_option operation (sqes (fst (Sqe_prep_timeout_remove timeout_and_second 2 [PySqe 0, PyLong 0])) 2)
       = Some (- 1)"
  by code_simp

subsection \<open>The completion cache\<close>

text \<open>Claim C1. The cache of completion wrappers does not keep a request to one live
  wrapper. \<^verbatim>\<open>IoUring_cqe_seen\<close> releases the reference \<^verbatim>\<open>submit\<close> took on the request
  once per wrapper, not once per completion, and hands back the head slot of the
  completion ring whichever entry the wrapper is for. In the run \<open>acknowledged_twice\<close>
  the second request's completion is acknowledged through two successive wrappers
  (objects 3 and 3 again, the block being reused): after the second acknowledgment the
  request's count is 1 while the caller and the live wrapper both refer to it, and when
  the caller drops the request it is freed under the wrapper, whose \<^verbatim>\<open>getresult\<close> then
  reads freed memory. The third request is allocated in the freed block (object 1), so
  the stale wrapper refers to it; \<^verbatim>\<open>wait_cqe\<close> creates wrapper 4 for its completion, and
  two live wrappers refer to one live request. When the stale wrapper is dropped, its
  deallocator clears the third request's cache pointer, and the next \<^verbatim>\<open>wait_cqe\<close> for
  the same, unacknowledged completion returns a new wrapper (object 3) while wrapper 4
  is live: two wrappers of one outstanding completion.\<close>

theorem stale_wrapper_shares_request:
  "snd (run init_state acknowledged_twice) =
     [Inr (PySqe 0), Inr PyNone, Inr (PySqe 1), Inr PyNone, Inr PyNone, Inr PyNone,
      Inr (PyList [PyCqe 2, PyCqe 3]), Inr PyNone, Inr PyNone,
      Inr (PyCqe 3), Inr PyNone, Inr PyNone,
      Inr (PySqe 1), Inr PyNone, Inr PyNone, Inr PyNone, Inr (PyCqe 4)]
   \<and> cq_head (fst (run init_state (take 9 acknowledged_twice))) = 1
   \<and> map_option sqe_refcnt (sqes (fst (run init_state (take 11 acknowledged_twice))) 1) = Some 1
   \<and> map_option sqeobj (cqes (fst (run init_state (take 11 acknowledged_twice))) 3) = Some (Some 1)
   \<and> sqes (fst (run init_state (take 12 acknowledged_twice))) 1 = None
   \<and> map_option sqeobj (cqes (fst (run init_state (take 12 acknowledged_twice))) 3) = Some (Some 1)
   \<and> snd (Cqe_getresult (fst (run init_state (take 12 acknowledged_twice))) 3) = Inl Undefined
   \<and> cq_head (fst (run init_state acknowledged_twice)) = 2
   \<and> map_option cqeobj (sqes (fst (run init_state acknowledged_twice)) 1) = Some (Some 4)
   \<and> map_option sqeobj (cqes (fst (run init_state acknowledged_twice)) 3) = Some (Some 1)
   \<and> map_option sqeobj (cqes (fst (run init_state acknowledged_twice)) 4) = Some (Some 1)
   \<and> map_option seen (cqes (fst (run init_state acknowledged_twice)) 4) = Some False
   \<and> drop 17 (snd (run init_state (acknowledged_twice @ [DropCqe 3, WaitCqe (\<lambda>n. (0, 2))])))
       = [Inr PyNone, Inr (PyCqe 3)]
   \<and> map_option sqeobj
        (cqes (fst (run init_state (acknowledged_twice @ [DropCqe 3, WaitCqe (\<lambda>n. (0, 2))]))) 3)
       = Some (Some 1)
   \<and> map_option sqeobj
        (cqes (fst (run init_state (acknowledged_twice @ [DropCqe 3, WaitCqe (\<lambda>n. (0, 2))]))) 4)
       = Some (Some 1)
   \<and> map_option seen
        (cqes (fst (run init_state (acknowledged_twice @ [DropCqe 3, WaitCqe (\<lambda>n. (0, 2))]))) 3)
       = Some False
   \<and> map_option seen
        (cqes (fst (run init_state (acknowledged_twice @ [DropCqe 3, WaitCqe (\<lambda>n. (0, 2))]))) 4)
       = Some False"
  by code_simp

end
